theory Spec2Isabelle
  imports Complex_Main "HOL-Library.AList"
begin

section \<open>Tensors, errors and Python slicing\<close>

text \<open>
  The notebook \<^verbatim>\<open>tutorials/simplicial/dist2Cycle_train.ipynb\<close> is a straight-line script
  over numpy and torch. A two-dimensional tensor is the list of its rows; floating-point numbers
  are idealised as real numbers (no rounding, no NaN, no infinities); the forward pass is given a
  second time over float32 values with their range, where a claim depends on it. A
  one-dimensional tensor (the bias of a linear layer) is stored as a tensor with a single row.
  Every failure that the libraries raise on a shape mismatch is a value \<open>Inl e\<close>.
\<close>

type_synonym tensor = "real list list"

datatype error = ShapeError | AttributeError | ValueError | LayerError

definition bindE :: "error + 'a \<Rightarrow> ('a \<Rightarrow> error + 'b) \<Rightarrow> error + 'b" where
  "bindE r f = (case r of Inl e \<Rightarrow> Inl e | Inr v \<Rightarrow> f v)"

text \<open>
  Python's \<^verbatim>\<open>xs[start:stop]\<close> with step 1: a negative bound counts from the end, and every
  bound is clipped to the length (\<^verbatim>\<open>slice.indices\<close>). \<open>None\<close> is an omitted bound.
\<close>

definition slice_bounds :: "int option \<Rightarrow> int option \<Rightarrow> nat \<Rightarrow> nat \<times> nat" where
  "slice_bounds start stop n =
     (let norm = (\<lambda>i. if i < 0 then max 0 (int n + i) else min (int n) i);
          lo = (case start of None \<Rightarrow> 0 | Some i \<Rightarrow> norm i);
          hi = (case stop of None \<Rightarrow> int n | Some i \<Rightarrow> norm i)
      in (nat lo, nat hi))"

definition py_slice :: "int option \<Rightarrow> int option \<Rightarrow> 'a list \<Rightarrow> 'a list" where
  "py_slice start stop xs =
     (case slice_bounds start stop (length xs) of (lo, hi) \<Rightarrow> take (hi - lo) (drop lo xs))"

section \<open>The label cell\<close>

text \<open>
  \<^verbatim>\<open>y = np.array([...]); y = np.append(y, y); y = np.append(y, [1, 1, 1, 1, 1, 1, 0, 0, 0, 1])\<close>
\<close>

definition y_base :: "int list" where
  "y_base = [1, 1, 1, 1, 1, 1, 1, 1, 1, 0, 1, 1, 1, 1, 0, 0, 1, 1, 0, 1, 0, 1,
             0, 0, 0, 0, 0, 0, 0, 0, 0, 0, 0, 0]"

definition y_labels :: "int list" where
  "y_labels = (y_base @ y_base) @ [1, 1, 1, 1, 1, 1, 0, 0, 0, 1]"

definition zeros :: "nat \<Rightarrow> nat \<Rightarrow> tensor" where
  "zeros r c = replicate r (replicate c 0)"

text \<open>
  \<^verbatim>\<open>t[:, j] = v\<close>: numpy writes \<open>v\<close> into column \<open>j\<close>; a vector whose length is neither
  the row count nor 1 cannot be broadcast and raises.
\<close>

definition set_column :: "nat \<Rightarrow> real list \<Rightarrow> tensor \<Rightarrow> error + tensor" where
  "set_column j v t =
     (if length v = length t then Inr (map2 (\<lambda>row x. row[j := x]) t v)
      else if length v = 1 then Inr (map (\<lambda>row. row[j := v ! 0]) t)
      else Inl ShapeError)"

record labels =
  y_true :: tensor
  y_test :: tensor
  y_train :: tensor

text \<open>
  \<^verbatim>\<open>y_true = np.zeros((78, 2)); y_true[:, 0] = y; y_true[:, 1] = 1 - y\<close>,
  \<^verbatim>\<open>y_test = y_true[-4:]; y_train = y_true[:30]\<close>.
\<close>

definition labels_cell :: "error + labels" where
  "labels_cell =
     bindE (set_column 0 (map real_of_int y_labels) (zeros 78 2)) (\<lambda>t0.
     bindE (set_column 1 (map (\<lambda>v. real_of_int (1 - v)) y_labels) t0) (\<lambda>t1.
       Inr \<lparr>y_true = t1,
            y_test = py_slice (Some (- 4)) None t1,
            y_train = py_slice None (Some 30) t1\<rparr>))"

section \<open>torch.nn.Module: parameter registration\<close>

text \<open>
  Parameters are objects with identity: a parameter is an address into a store of tensors.
  A module keeps three dictionaries (insertion-ordered, hence association lists): its registered
  parameters, its registered submodules, and its ordinary attributes. The only ordinary attribute
  the notebook assigns is a Python list of modules.
\<close>

type_synonym addr = nat
type_synonym store = "addr \<Rightarrow> tensor"

datatype nn_module =
  Module (m_parameters: "(string \<times> addr) list")
         (m_modules: "(string \<times> nn_module) list")
         (m_dict: "(string \<times> nn_module list) list")

datatype pyval = VParameter addr | VModule nn_module | VList "nn_module list"

text \<open>
  \<^verbatim>\<open>Module.__setattr__\<close>: a \<^verbatim>\<open>Parameter\<close> goes to \<^verbatim>\<open>_parameters\<close>, a \<^verbatim>\<open>Module\<close> to
  \<^verbatim>\<open>_modules\<close> (the name is removed from the other dictionaries), and any other value is an
  ordinary attribute in \<^verbatim>\<open>__dict__\<close>. Assigning an ordinary value to a name that is already
  a registered parameter or submodule raises in torch; every name the notebook assigns is new,
  and that case is left out.
\<close>

fun setattr :: "nn_module \<Rightarrow> string \<Rightarrow> pyval \<Rightarrow> nn_module" where
  "setattr (Module ps ms d) n (VParameter a) =
     Module (AList.update n a ps) (AList.delete n ms) (AList.delete n d)"
| "setattr (Module ps ms d) n (VModule m) =
     Module (AList.delete n ps) (AList.update n m ms) (AList.delete n d)"
| "setattr (Module ps ms d) n (VList l) =
     Module ps ms (AList.update n l d)"

text \<open>
  \<^verbatim>\<open>Module.parameters()\<close> (\<^verbatim>\<open>recurse=True\<close>): the module's own registered parameters, then
  those of every registered submodule in order; a parameter met twice is yielded once, at its
  first occurrence. Ordinary attributes are not visited.
\<close>

fun named_params :: "nn_module \<Rightarrow> addr list" where
  "named_params (Module ps ms d) = map snd ps @ concat (map (\<lambda>nm. named_params (snd nm)) ms)"

definition parameters :: "nn_module \<Rightarrow> addr list" where
  "parameters m = rev (remdups (rev (named_params m)))"

text \<open>
  \<^verbatim>\<open>torch.nn.Linear(in_features, out_features)\<close> allocates a weight and a bias; \<open>a\<close> is the
  next free address, and the next free address afterwards is returned.
\<close>

definition Linear_init :: "nat \<Rightarrow> nat \<Rightarrow> addr \<Rightarrow> nn_module \<times> addr" where
  "Linear_init in_features out_features a =
     (setattr (setattr (Module [] [] []) ''weight'' (VParameter a)) ''bias'' (VParameter (a + 1)),
      a + 2)"

section \<open>The libraries the notebook calls\<close>

text \<open>
  The message-passing layer \<^verbatim>\<open>Dist2CycleLayer\<close>, automatic differentiation and the Adam
  update are library code that the notebook only calls; they are parameters of the model.
  \<open>layer_init channels a\<close> constructs a layer from the next free address \<open>a\<close>,
  \<open>layer_forward\<close> is the layer's forward pass (it may raise), \<open>backward\<close> gives the
  gradient that \<^verbatim>\<open>loss.backward()\<close> leaves at each parameter, \<open>adam_param\<close> is the new
  value Adam writes into one parameter and \<open>adam_state\<close> the optimizer's next internal state.
\<close>

record 'o backend =
  layer_init :: "nat \<Rightarrow> addr \<Rightarrow> nn_module \<times> addr"
  layer_forward :: "store \<Rightarrow> nn_module \<Rightarrow> tensor \<Rightarrow> tensor \<Rightarrow> tensor \<Rightarrow> error + tensor"
  backward :: "store \<Rightarrow> tensor \<Rightarrow> tensor \<Rightarrow> tensor \<Rightarrow> tensor \<Rightarrow> addr \<Rightarrow> tensor"
  adam_param :: "'o \<Rightarrow> (addr \<Rightarrow> tensor) \<Rightarrow> addr \<Rightarrow> tensor \<Rightarrow> tensor"
  adam_state :: "'o \<Rightarrow> (addr \<Rightarrow> tensor) \<Rightarrow> 'o"

section \<open>The model class Dist2Cycle\<close>

text \<open>
  \<^verbatim>\<open>for _ in range(n_layers): layers.append(Dist2CycleLayer(channels=channels))\<close>
\<close>

fun make_layers :: "'o backend \<Rightarrow> nat \<Rightarrow> nat \<Rightarrow> addr \<Rightarrow> nn_module list \<times> addr" where
  "make_layers be channels 0 a = ([], a)"
| "make_layers be channels (Suc n) a =
     (case layer_init be channels a of (l, a') \<Rightarrow>
        (case make_layers be channels n a' of (ls, a'') \<Rightarrow> (l # ls, a'')))"

text \<open>
  \<^verbatim>\<open>__init__\<close>: the layers are built first, then
  \<^verbatim>\<open>self.linear = torch.nn.Linear(channels, 2)\<close> and \<^verbatim>\<open>self.layers = layers\<close>, where
  \<^verbatim>\<open>layers\<close> is a Python list.
\<close>

definition Dist2Cycle_init :: "'o backend \<Rightarrow> nat \<Rightarrow> nat \<Rightarrow> addr \<Rightarrow> nn_module \<times> addr" where
  "Dist2Cycle_init be channels n_layers a =
     (case make_layers be channels n_layers a of (layers, a1) \<Rightarrow>
        (case Linear_init channels 2 a1 of (lin, a2) \<Rightarrow>
           (setattr (setattr (Module [] [] []) ''linear'' (VModule lin)) ''layers'' (VList layers),
            a2)))"

definition dot :: "real list \<Rightarrow> real list \<Rightarrow> real" where
  "dot w r = sum_list (map2 (*) w r)"

text \<open>
  \<^verbatim>\<open>torch.nn.Linear.forward\<close>: \<open>x W\<^sup>T + b\<close> for a weight of shape (out, in) and a bias of
  shape (out); the rows of \<open>x\<close> must have as many entries as the rows of the weight.
\<close>

definition Linear_forward :: "store \<Rightarrow> nn_module \<Rightarrow> tensor \<Rightarrow> error + tensor" where
  "Linear_forward st lin x =
     (case (map_of (m_parameters lin) ''weight'', map_of (m_parameters lin) ''bias'') of
        (Some aw, Some ab) \<Rightarrow>
          (case st ab of
             [b] \<Rightarrow>
               if (\<forall>r \<in> set x. \<forall>w \<in> set (st aw). length r = length w) \<and> length b = length (st aw)
               then Inr (map (\<lambda>r. map2 (\<lambda>w bj. dot w r + bj) (st aw) b) x)
               else Inl ShapeError
           | _ \<Rightarrow> Inl ShapeError)
      | _ \<Rightarrow> Inl AttributeError)"

text \<open>\<^verbatim>\<open>torch.softmax(logits, dim=-1)\<close>: each row is normalised on its own.\<close>

definition softmax_row :: "real list \<Rightarrow> real list" where
  "softmax_row r = map (\<lambda>v. exp v / sum_list (map exp r)) r"

definition softmax :: "tensor \<Rightarrow> tensor" where
  "softmax t = map softmax_row t"

text \<open>
  \<^verbatim>\<open>for layer in self.layers: x_1 = layer(x_1e, Linv, adjacency)\<close>: every layer is called on
  the input \<^verbatim>\<open>x_1e\<close> and its result is bound to \<^verbatim>\<open>x_1\<close> (\<open>None\<close> while unbound).
\<close>

fun layers_loop ::
  "'o backend \<Rightarrow> store \<Rightarrow> nn_module list \<Rightarrow> tensor \<Rightarrow> tensor \<Rightarrow> tensor \<Rightarrow> tensor option
     \<Rightarrow> error + tensor option" where
  "layers_loop be st [] x_1e Linv adjacency x_1 = Inr x_1"
| "layers_loop be st (layer # ls) x_1e Linv adjacency x_1 =
     bindE (layer_forward be st layer x_1e Linv adjacency)
       (\<lambda>y. layers_loop be st ls x_1e Linv adjacency (Some y))"

text \<open>
  \<^verbatim>\<open>forward\<close>: after the loop, \<^verbatim>\<open>logits = self.linear(x_1e)\<close> and
  \<^verbatim>\<open>return torch.softmax(logits, dim=-1)\<close>.
\<close>

definition forward ::
  "'o backend \<Rightarrow> store \<Rightarrow> nn_module \<Rightarrow> tensor \<Rightarrow> tensor \<Rightarrow> tensor \<Rightarrow> error + tensor" where
  "forward be st model x_1e Linv adjacency =
     (case map_of (m_dict model) ''layers'' of
        None \<Rightarrow> Inl AttributeError
      | Some layers \<Rightarrow>
          bindE (layers_loop be st layers x_1e Linv adjacency None) (\<lambda>x_1.
            (case map_of (m_modules model) ''linear'' of
               None \<Rightarrow> Inl AttributeError
             | Some lin \<Rightarrow>
                 bindE (Linear_forward st lin x_1e) (\<lambda>logits. Inr (softmax logits)))))"

section \<open>The optimizer\<close>

record 'o optimizer =
  param_groups :: "addr list"
  opt_state :: "'o"

text \<open>
  \<^verbatim>\<open>torch.optim.Adam(params, lr=0.4)\<close> keeps the parameters it is given and refuses an empty
  collection.
\<close>

definition Adam_init :: "addr list \<Rightarrow> 'o \<Rightarrow> error + 'o optimizer" where
  "Adam_init params st0 =
     (if params = [] then Inl ValueError else Inr \<lparr>param_groups = params, opt_state = st0\<rparr>)"

text \<open>
  \<^verbatim>\<open>optimizer.step()\<close> writes a new value into each parameter the optimizer holds, and into
  nothing else.
\<close>

definition optimizer_step ::
  "'o backend \<Rightarrow> 'o optimizer \<Rightarrow> (addr \<Rightarrow> tensor) \<Rightarrow> store \<Rightarrow> store \<times> 'o optimizer" where
  "optimizer_step be opt g st =
     (fold (\<lambda>a m. m(a := adam_param be (opt_state opt) g a (m a))) (param_groups opt) st,
      opt\<lparr>opt_state := adam_state be (opt_state opt) g\<rparr>)"

section \<open>Loss and accuracy\<close>

definition mean :: "real list \<Rightarrow> real" where
  "mean xs = sum_list xs / real (length xs)"

text \<open>
  \<^verbatim>\<open>torch.nn.functional.binary_cross_entropy_with_logits\<close> with the default mean reduction:
  the target must have the size of the input.
\<close>

definition binary_cross_entropy_with_logits :: "tensor \<Rightarrow> tensor \<Rightarrow> error + real" where
  "binary_cross_entropy_with_logits input target =
     (if map length input = map length target
      then Inr (mean (concat (map2 (map2 (\<lambda>x t. (1 - t) * x + ln (1 + exp (- x)))) input target)))
      else Inl ValueError)"

text \<open>\<^verbatim>\<open>torch.where(y_hat > 0.5, torch.tensor(1), torch.tensor(0))\<close>\<close>

definition threshold :: "tensor \<Rightarrow> int list list" where
  "threshold y_hat = map (map (\<lambda>v. if v > 0.5 then 1 else 0)) y_hat"

text \<open>
  \<^verbatim>\<open>(p == t).all(dim=1).float().mean().item()\<close> for operands of the same shape; operands of
  different shapes are rejected (broadcasting of a dimension of size 1 is not modelled: the loss
  above has already fixed the shapes when this is evaluated).
\<close>

definition accuracy :: "int list list \<Rightarrow> tensor \<Rightarrow> error + real" where
  "accuracy p t =
     (if map length p = map length t
      then Inr (mean (map (\<lambda>(pr, tr). if list_all (\<lambda>(a, b). real_of_int a = b) (zip pr tr)
                                        then 1 else 0) (zip p t)))
      else Inl ShapeError)"

section \<open>The training cell\<close>

datatype line = EpochLine int real real | TestLine real

record 'o nb_state =
  mem :: store
  optimizer :: "'o optimizer"
  lab :: labels
  out :: "line list"

definition test_interval :: int where
  "test_interval = 2"

text \<open>
  One pass through the body of \<^verbatim>\<open>for epoch_i in range(1, num_epochs + 1)\<close>. The printed
  lines are kept as values: \<open>EpochLine n loss acc\<close> is
  \<^verbatim>\<open>Epoch: <n> loss: <loss:.4f> Train_acc: <acc:.4f>\<close> and \<open>TestLine acc\<close> is
  \<^verbatim>\<open>Test_acc: <acc:.4f>\<close>; the rendering of the numbers to four decimals is not modelled.
  \<^verbatim>\<open>model.train()\<close> sets a mode flag that is already set and that nothing ever clears, and
  \<^verbatim>\<open>optimizer.zero_grad()\<close> clears the gradients that \<^verbatim>\<open>loss.backward()\<close> then
  recomputes, so the step uses the gradient of this epoch's loss alone. The list
  \<^verbatim>\<open>epoch_loss\<close> holds the one loss of the epoch, and \<^verbatim>\<open>np.mean\<close> of it is printed.
\<close>

definition epoch ::
  "'o backend \<Rightarrow> nn_module \<Rightarrow> tensor \<Rightarrow> tensor \<Rightarrow> tensor \<Rightarrow> int \<Rightarrow> 'o nb_state
     \<Rightarrow> error + 'o nb_state" where
  "epoch be model x_1e Linv adjacency epoch_i s =
     bindE (forward be (mem s) model x_1e Linv adjacency) (\<lambda>y_hat.
     bindE (binary_cross_entropy_with_logits
              (py_slice None (Some (int (length (y_train (lab s))))) y_hat) (y_train (lab s)))
       (\<lambda>loss.
     (case optimizer_step be (optimizer s)
             (backward be (mem s) x_1e Linv adjacency (y_train (lab s))) (mem s) of
        (mem', opt') \<Rightarrow>
     bindE (accuracy (py_slice (Some (- int (length (y_train (lab s))))) None (threshold y_hat))
              (y_train (lab s)))
       (\<lambda>acc.
     (let s1 = s\<lparr>mem := mem', optimizer := opt', out := out s @ [EpochLine epoch_i (mean [loss]) acc]\<rparr>
      in if epoch_i mod test_interval = 0
         then bindE (forward be (mem s1) model x_1e Linv adjacency) (\<lambda>y_hat_test.
              bindE (accuracy (py_slice (Some (- int (length (y_test (lab s))))) None
                                 (threshold y_hat_test)) (y_test (lab s)))
                (\<lambda>test_accuracy. Inr (s1\<lparr>out := out s1 @ [TestLine test_accuracy]\<rparr>)))
         else Inr s1)))))"

fun train_loop ::
  "'o backend \<Rightarrow> nn_module \<Rightarrow> tensor \<Rightarrow> tensor \<Rightarrow> tensor \<Rightarrow> int list \<Rightarrow> 'o nb_state
     \<Rightarrow> error + 'o nb_state" where
  "train_loop be model x_1e Linv adjacency [] s = Inr s"
| "train_loop be model x_1e Linv adjacency (epoch_i # rest) s =
     bindE (epoch be model x_1e Linv adjacency epoch_i s)
       (\<lambda>s'. train_loop be model x_1e Linv adjacency rest s')"

text \<open>\<^verbatim>\<open>range(1, num_epochs + 1)\<close> is the list \<open>[1..num_epochs]\<close>, empty when \<open>num_epochs < 1\<close>.\<close>

definition train ::
  "'o backend \<Rightarrow> nn_module \<Rightarrow> tensor \<Rightarrow> tensor \<Rightarrow> tensor \<Rightarrow> int \<Rightarrow> 'o nb_state
     \<Rightarrow> error + 'o nb_state" where
  "train be model x_1e Linv adjacency num_epochs s =
     train_loop be model x_1e Linv adjacency [1..num_epochs] s"

section \<open>The model and optimizer cell\<close>

text \<open>
  \<^verbatim>\<open>model = Dist2Cycle(channels=channels_nodes, n_layers=10)\<close> with
  \<^verbatim>\<open>channels_nodes = 78\<close>, and \<^verbatim>\<open>optimizer = torch.optim.Adam(model.parameters(), lr=0.4)\<close>.
  The random initial values of the parameters are the store \<open>st\<close>, and \<open>ob\<close> is Adam's
  initial internal state.
\<close>

definition channels_nodes :: nat where
  "channels_nodes = 78"

definition notebook_init :: "'o backend \<Rightarrow> 'o \<Rightarrow> store \<Rightarrow> error + (nn_module \<times> 'o nb_state)" where
  "notebook_init be ob st =
     bindE labels_cell (\<lambda>l.
       (case Dist2Cycle_init be channels_nodes 10 0 of
          (model, a) \<Rightarrow>
            bindE (Adam_init (parameters model) ob) (\<lambda>opt.
              Inr (model, \<lparr>mem = st, optimizer = opt, lab = l, out = []\<rparr>))))"

section \<open>The forward pass over float32 values\<close>

text \<open>
  The tensors of the notebook hold float32 numbers. Rounding apart, a float32 computation differs
  from one over the reals in its range: a result whose magnitude reaches
  \<open>(2 - 2\<^sup>-\<^sup>2\<^sup>4) \<sqdot> 2\<^sup>1\<^sup>2\<^sup>7\<close> is an infinity, and an undefined result (\<open>\<infinity> - \<infinity>\<close>,
  \<open>0 \<sqdot> \<infinity>\<close>, \<open>\<infinity> / \<infinity>\<close>, \<open>0 / 0\<close>) is NaN, which every operation passes on. The values
  below carry exactly that: a finite value is a real number (rounding, subnormal numbers and the
  sign of zero are not modelled), beside the two infinities and NaN.
\<close>

datatype f32 = Fin real | PInf | NInf | NaN

definition f32_overflow :: real where
  "f32_overflow = (2 - 1 / 2 ^ 24) * 2 ^ 127"

definition f32_range :: "real \<Rightarrow> f32" where
  "f32_range r =
     (if f32_overflow \<le> r then PInf else if r \<le> - f32_overflow then NInf else Fin r)"

fun f32_neg :: "f32 \<Rightarrow> f32" where
  "f32_neg (Fin a) = Fin (- a)"
| "f32_neg PInf = NInf"
| "f32_neg NInf = PInf"
| "f32_neg NaN = NaN"

fun f32_add :: "f32 \<Rightarrow> f32 \<Rightarrow> f32" where
  "f32_add NaN y = NaN"
| "f32_add x NaN = NaN"
| "f32_add (Fin a) (Fin b) = f32_range (a + b)"
| "f32_add PInf NInf = NaN"
| "f32_add NInf PInf = NaN"
| "f32_add PInf y = PInf"
| "f32_add x PInf = PInf"
| "f32_add NInf y = NInf"
| "f32_add x NInf = NInf"

definition f32_sub :: "f32 \<Rightarrow> f32 \<Rightarrow> f32" where
  "f32_sub x y = f32_add x (f32_neg y)"

fun f32_mul :: "f32 \<Rightarrow> f32 \<Rightarrow> f32" where
  "f32_mul NaN y = NaN"
| "f32_mul x NaN = NaN"
| "f32_mul (Fin a) (Fin b) = f32_range (a * b)"
| "f32_mul (Fin a) PInf = (if a = 0 then NaN else if 0 < a then PInf else NInf)"
| "f32_mul (Fin a) NInf = (if a = 0 then NaN else if 0 < a then NInf else PInf)"
| "f32_mul PInf (Fin b) = (if b = 0 then NaN else if 0 < b then PInf else NInf)"
| "f32_mul NInf (Fin b) = (if b = 0 then NaN else if 0 < b then NInf else PInf)"
| "f32_mul PInf PInf = PInf"
| "f32_mul PInf NInf = NInf"
| "f32_mul NInf PInf = NInf"
| "f32_mul NInf NInf = PInf"

fun f32_div :: "f32 \<Rightarrow> f32 \<Rightarrow> f32" where
  "f32_div NaN y = NaN"
| "f32_div x NaN = NaN"
| "f32_div (Fin a) (Fin b) =
     (if b = 0 then (if a = 0 then NaN else if 0 < a then PInf else NInf)
      else f32_range (a / b))"
| "f32_div (Fin a) PInf = Fin 0"
| "f32_div (Fin a) NInf = Fin 0"
| "f32_div PInf (Fin b) = (if 0 \<le> b then PInf else NInf)"
| "f32_div NInf (Fin b) = (if 0 \<le> b then NInf else PInf)"
| "f32_div x y = NaN"

fun f32_exp :: "f32 \<Rightarrow> f32" where
  "f32_exp (Fin a) = f32_range (exp a)"
| "f32_exp PInf = PInf"
| "f32_exp NInf = Fin 0"
| "f32_exp NaN = NaN"

text \<open>The maximum as torch takes it: NaN wins over every number.\<close>

fun f32_max :: "f32 \<Rightarrow> f32 \<Rightarrow> f32" where
  "f32_max NaN y = NaN"
| "f32_max x NaN = NaN"
| "f32_max PInf y = PInf"
| "f32_max x PInf = PInf"
| "f32_max NInf y = y"
| "f32_max x NInf = x"
| "f32_max (Fin a) (Fin b) = Fin (max a b)"

text \<open>What \<open>0 \<le> v\<close> is for a float32: false for NaN, as every comparison with NaN is.\<close>

fun f32_nonneg :: "f32 \<Rightarrow> bool" where
  "f32_nonneg (Fin a) = (0 \<le> a)"
| "f32_nonneg PInf = True"
| "f32_nonneg NInf = False"
| "f32_nonneg NaN = False"

fun f32_finite :: "f32 \<Rightarrow> bool" where
  "f32_finite (Fin a) = True"
| "f32_finite x = False"

fun f32_val :: "f32 \<Rightarrow> real" where
  "f32_val (Fin a) = a"
| "f32_val x = 0"

type_synonym f32_tensor = "f32 list list"
type_synonym f32_store = "addr \<Rightarrow> f32_tensor"

text \<open>Sums are accumulated from the left, starting at 0.\<close>

definition f32_sum :: "f32 list \<Rightarrow> f32" where
  "f32_sum xs = fold (\<lambda>x acc. f32_add acc x) xs (Fin 0)"

definition f32_dot :: "f32 list \<Rightarrow> f32 list \<Rightarrow> f32" where
  "f32_dot w r = f32_sum (map2 f32_mul w r)"

definition Linear_forward_f32 :: "f32_store \<Rightarrow> nn_module \<Rightarrow> f32_tensor \<Rightarrow> error + f32_tensor" where
  "Linear_forward_f32 st lin x =
     (case (map_of (m_parameters lin) ''weight'', map_of (m_parameters lin) ''bias'') of
        (Some aw, Some ab) \<Rightarrow>
          (case st ab of
             [b] \<Rightarrow>
               if (\<forall>r \<in> set x. \<forall>w \<in> set (st aw). length r = length w) \<and> length b = length (st aw)
               then Inr (map (\<lambda>r. map2 (\<lambda>w bj. f32_add (f32_dot w r) bj) (st aw) b) x)
               else Inl ShapeError
           | _ \<Rightarrow> Inl ShapeError)
      | _ \<Rightarrow> Inl AttributeError)"

text \<open>
  \<^verbatim>\<open>torch.softmax\<close> subtracts the maximum of the row before it exponentiates, and divides by
  the sum of the exponentials.
\<close>

fun f32_row_max :: "f32 list \<Rightarrow> f32" where
  "f32_row_max [] = NInf"
| "f32_row_max (x # xs) = fold (\<lambda>y acc. f32_max acc y) xs x"

definition softmax_row_f32 :: "f32 list \<Rightarrow> f32 list" where
  "softmax_row_f32 r =
     (let m = f32_row_max r;
          e = map (\<lambda>v. f32_exp (f32_sub v m)) r;
          s = f32_sum e
      in map (\<lambda>u. f32_div u s) e)"

definition softmax_f32 :: "f32_tensor \<Rightarrow> f32_tensor" where
  "softmax_f32 t = map softmax_row_f32 t"

text \<open>
  \<^verbatim>\<open>Dist2Cycle.forward\<close> as above, on float32 tensors; \<open>lf\<close> is the forward pass of a
  layer.
\<close>

fun layers_loop_f32 ::
  "(f32_store \<Rightarrow> nn_module \<Rightarrow> f32_tensor \<Rightarrow> f32_tensor \<Rightarrow> f32_tensor \<Rightarrow> error + f32_tensor)
     \<Rightarrow> f32_store \<Rightarrow> nn_module list \<Rightarrow> f32_tensor \<Rightarrow> f32_tensor \<Rightarrow> f32_tensor
     \<Rightarrow> f32_tensor option \<Rightarrow> error + f32_tensor option" where
  "layers_loop_f32 lf st [] x_1e Linv adjacency x_1 = Inr x_1"
| "layers_loop_f32 lf st (layer # ls) x_1e Linv adjacency x_1 =
     bindE (lf st layer x_1e Linv adjacency)
       (\<lambda>y. layers_loop_f32 lf st ls x_1e Linv adjacency (Some y))"

definition forward_f32 ::
  "(f32_store \<Rightarrow> nn_module \<Rightarrow> f32_tensor \<Rightarrow> f32_tensor \<Rightarrow> f32_tensor \<Rightarrow> error + f32_tensor)
     \<Rightarrow> f32_store \<Rightarrow> nn_module \<Rightarrow> f32_tensor \<Rightarrow> f32_tensor \<Rightarrow> f32_tensor
     \<Rightarrow> error + f32_tensor" where
  "forward_f32 lf st model x_1e Linv adjacency =
     (case map_of (m_dict model) ''layers'' of
        None \<Rightarrow> Inl AttributeError
      | Some layers \<Rightarrow>
          bindE (layers_loop_f32 lf st layers x_1e Linv adjacency None) (\<lambda>x_1.
            (case map_of (m_modules model) ''linear'' of
               None \<Rightarrow> Inl AttributeError
             | Some lin \<Rightarrow>
                 bindE (Linear_forward_f32 st lin x_1e) (\<lambda>logits. Inr (softmax_f32 logits)))))"

section \<open>Notions used in the statements\<close>

text \<open>The store and the optimizer after the gradient step of an epoch that starts in \<open>s\<close>.\<close>

definition after_step ::
  "'o backend \<Rightarrow> tensor \<Rightarrow> tensor \<Rightarrow> tensor \<Rightarrow> 'o nb_state \<Rightarrow> store \<times> 'o optimizer" where
  "after_step be x_1e Linv adjacency s =
     optimizer_step be (optimizer s)
       (backward be (mem s) x_1e Linv adjacency (y_train (lab s))) (mem s)"

text \<open>The addresses of the weight and the bias of \<^verbatim>\<open>self.linear\<close>.\<close>

definition linear_of :: "nn_module \<Rightarrow> (addr \<times> addr) option" where
  "linear_of model =
     (case map_of (m_modules model) ''linear'' of
        None \<Rightarrow> None
      | Some lin \<Rightarrow>
          (case (map_of (m_parameters lin) ''weight'', map_of (m_parameters lin) ''bias'') of
             (Some aw, Some ab) \<Rightarrow> Some (aw, ab)
           | _ \<Rightarrow> None))"

text \<open>
  Shape conformance, the one invariant the notebook relies on: no layer raises on the input,
  the linear layer has a weight of two rows that fit the rows of the input and a bias of two
  entries, Adam keeps the shape of what it updates, and the label slices are non-empty, have
  two columns and no more rows than the input.
\<close>

definition conforming ::
  "'o backend \<Rightarrow> nn_module \<Rightarrow> tensor \<Rightarrow> tensor \<Rightarrow> tensor \<Rightarrow> 'o nb_state \<Rightarrow> bool" where
  "conforming be model x_1e Linv adjacency s \<longleftrightarrow>
     (case map_of (m_dict model) ''layers'' of
        None \<Rightarrow> False
      | Some layers \<Rightarrow>
          (\<forall>st. \<forall>l \<in> set layers. \<exists>y. layer_forward be st l x_1e Linv adjacency = Inr y)) \<and>
     (case linear_of model of
        None \<Rightarrow> False
      | Some (aw, ab) \<Rightarrow>
          length (mem s aw) = 2 \<and> map length (mem s ab) = [2] \<and>
          (\<forall>w \<in> set (mem s aw). \<forall>r \<in> set x_1e. length r = length w)) \<and>
     (\<forall>ob g a t. map length (adam_param be ob g a t) = map length t) \<and>
     0 < length (y_train (lab s)) \<and> length (y_train (lab s)) \<le> length x_1e \<and>
     (\<forall>r \<in> set (y_train (lab s)). length r = 2) \<and>
     0 < length (y_test (lab s)) \<and> length (y_test (lab s)) \<le> length x_1e \<and>
     (\<forall>r \<in> set (y_test (lab s)). length r = 2)"

text \<open>
  A layer constructor allocates fresh parameters: every parameter of the layer it builds from
  the next free address \<open>a\<close> lies at or after \<open>a\<close> and before the next free address it returns.
\<close>

definition allocates_fresh :: "'o backend \<Rightarrow> bool" where
  "allocates_fresh be \<longleftrightarrow>
     (\<forall>channels a. case layer_init be channels a of
                     (m, a') \<Rightarrow> a \<le> a' \<and> set (named_params m) \<subseteq> {a..<a'})"

text \<open>The epoch numbers of the \<^verbatim>\<open>Epoch:\<close> lines of a console output, in order.\<close>

fun epoch_indices :: "line list \<Rightarrow> int list" where
  "epoch_indices [] = []"
| "epoch_indices (EpochLine n loss acc # ls) = n # epoch_indices ls"
| "epoch_indices (TestLine acc # ls) = epoch_indices ls"

text \<open>
  Accuracy on a set of rows, as the specification words it: the share of the rows \<open>j\<close> of
  \<open>idx\<close> at which the thresholded prediction row \<open>j\<close> equals the label row \<open>j\<close>.
\<close>

definition rows_accuracy :: "nat list \<Rightarrow> int list list \<Rightarrow> tensor \<Rightarrow> real" where
  "rows_accuracy idx p t =
     mean (map (\<lambda>j. if map real_of_int (p ! j) = t ! j then 1 else 0) idx)"

section \<open>A concrete run\<close>

text \<open>
  A backend to run the notebook on: a layer owns one linear map \<^verbatim>\<open>fc_neigh\<close> and returns the
  input multiplied by its weight; the gradient is the parameter itself and the update subtracts
  the sum of its entries, scaled by the learning rate.
\<close>

definition demo_backend :: "nat backend" where
  "demo_backend =
     \<lparr>layer_init = (\<lambda>channels a.
        (setattr (Module [] [] []) ''fc_neigh'' (VModule (fst (Linear_init channels channels a))),
         a + 2)),
      layer_forward = (\<lambda>st layer x_1e Linv adjacency.
        Inr (map (\<lambda>r. map (\<lambda>w. dot w r) (st (sum_list (take 1 (named_params layer))))) x_1e)),
      backward = (\<lambda>st x_1e Linv adjacency y a. st a),
      adam_param = (\<lambda>ob g a t. map (map (\<lambda>v. v - 0.4 * sum_list (concat (g a)))) t),
      adam_state = (\<lambda>ob g. Suc ob)\<rparr>"

definition demo_x_1e :: tensor where
  "demo_x_1e = replicate 78 (replicate 78 1)"

definition demo_mem :: store where
  "demo_mem = (\<lambda>a. if a = 21 then [[0, 0]]
                    else if a = 20 then replicate 2 (replicate 78 1)
                    else replicate 78 (replicate 78 1))"

text \<open>
  An input and parameters on which the model predicts the training labels exactly on the rows
  0 to 29 and the second class on all other rows: row \<open>i\<close> of the input is
  \<open>(c\<^sub>i, 0, ..., 0)\<close> with \<open>c\<^sub>i = 1\<close> where \<open>i < 30\<close> and the label is 1 and
  \<open>c\<^sub>i = -1\<close> elsewhere, and the linear layer returns the logits \<open>(c\<^sub>i, 0)\<close>.
\<close>

definition slip_signs :: "real list" where
  "slip_signs = map (\<lambda>v. if v = 1 then 1 else - 1) (take 30 y_labels) @ replicate 48 (- 1)"

definition slip_x_1e :: tensor where
  "slip_x_1e = map (\<lambda>c. c # replicate 77 0) slip_signs"

definition slip_mem :: store where
  "slip_mem = (\<lambda>a. if a = 21 then [[0, 0]]
                    else if a = 20 then [1 # replicate 77 0, replicate 78 0]
                    else replicate 78 (replicate 78 1))"

text \<open>
  The notebook's model with a linear weight of ones and a bias of zeros, on the input whose
  entries are all \<open>10\<^sup>3\<^sup>8\<close>, a finite float32, and on the input whose entries are all 1.
\<close>

definition ones_f32_mem :: f32_store where
  "ones_f32_mem = (\<lambda>a. if a = 21 then [[Fin 0, Fin 0]] else replicate 2 (replicate 78 (Fin 1)))"

definition huge_x_1e :: f32_tensor where
  "huge_x_1e = replicate 78 (replicate 78 (Fin (10 ^ 38)))"

definition ones_x_1e :: f32_tensor where
  "ones_x_1e = replicate 78 (replicate 78 (Fin 1))"

definition the_model :: nn_module where
  "the_model = fst (Dist2Cycle_init demo_backend channels_nodes 10 0)"

section \<open>Auxiliary facts\<close>

lemma bindE_Inr: "bindE r f = Inr v \<longleftrightarrow> (\<exists>u. r = Inr u \<and> f u = Inr v)"
  by (cases r) (simp_all add: bindE_def)

lemma forward_Inr:
  "forward be st model x L A = Inr y \<longleftrightarrow>
     (\<exists>layers x_1 lin logits. map_of (m_dict model) ''layers'' = Some layers \<and>
        layers_loop be st layers x L A None = Inr x_1 \<and>
        map_of (m_modules model) ''linear'' = Some lin \<and>
        Linear_forward st lin x = Inr logits \<and> y = softmax logits)"
  by (auto simp: forward_def bindE_Inr split: option.splits)

lemma Linear_forward_Inr:
  "Linear_forward st lin x = Inr logits \<longleftrightarrow>
     (\<exists>aw ab b. map_of (m_parameters lin) ''weight'' = Some aw \<and>
        map_of (m_parameters lin) ''bias'' = Some ab \<and> st ab = [b] \<and>
        (\<forall>r \<in> set x. \<forall>w \<in> set (st aw). length r = length w) \<and> length b = length (st aw) \<and>
        logits = map (\<lambda>r. map2 (\<lambda>w bj. dot w r + bj) (st aw) b) x)"
  by (auto simp: Linear_forward_def split: option.splits list.splits)

lemma optimizer_step_frame:
  "a \<notin> set (param_groups opt) \<Longrightarrow> fst (optimizer_step be opt g st) a = st a"
proof -
  have "a \<notin> set ps \<Longrightarrow> fold (\<lambda>a m. m(a := f a (m a))) ps st a = st a" for ps f
    by (induction ps arbitrary: st) auto
  thus "a \<notin> set (param_groups opt) \<Longrightarrow> fst (optimizer_step be opt g st) a = st a"
    by (simp add: optimizer_step_def)
qed

lemma optimizer_step_shape:
  assumes "\<And>o' g a t. map length (adam_param be o' g a t) = map length t"
  shows "map length (fst (optimizer_step be opt g st) a) = map length (st a)"
proof -
  have "map length (fold (\<lambda>a m. m(a := adam_param be ob g a (m a))) ps st a) = map length (st a)" for ps ob
    by (induction ps arbitrary: st) (auto simp: assms)
  thus ?thesis by (simp add: optimizer_step_def)
qed

lemma optimizer_step_groups: "param_groups (snd (optimizer_step be opt g st)) = param_groups opt"
  by (simp add: optimizer_step_def)



lemma bindE_InrE:
  assumes "bindE r f = Inr v"
  obtains u where "r = Inr u" and "f u = Inr v"
  using assms by (cases r) (simp_all add: bindE_def)

lemma epoch_Inr_I:
  assumes "forward be (mem s) model x L A = Inr y_hat"
    and "binary_cross_entropy_with_logits
          (py_slice None (Some (int (length (y_train (lab s))))) y_hat) (y_train (lab s)) = Inr loss"
    and "accuracy (py_slice (Some (- int (length (y_train (lab s))))) None (threshold y_hat))
          (y_train (lab s)) = Inr acc"
    and "forward be (fst (after_step be x L A s)) model x L A = Inr y_hat_test"
    and "accuracy (py_slice (Some (- int (length (y_test (lab s))))) None
                            (threshold y_hat_test)) (y_test (lab s)) = Inr test_accuracy"
  shows "epoch be model x L A i s = Inr (s\<lparr>mem := fst (after_step be x L A s), optimizer := snd (after_step be x L A s),
                       out := out s @ EpochLine i (mean [loss]) acc # (if i mod test_interval = 0 then [TestLine test_accuracy] else [])\<rparr>)"
  using assms unfolding epoch_def after_step_def
  by (simp add: bindE_def Let_def case_prod_beta)

lemma epoch_frame:
  assumes e: "epoch be model x L A i s = Inr s'"
  shows "lab s' = lab s \<and> mem s' = fst (after_step be x L A s) \<and> optimizer s' = snd (after_step be x L A s)"
  using e unfolding epoch_def after_step_def bindE_def
  by (auto simp: Let_def split: sum.splits prod.splits if_splits)

lemma epoch_out:
  assumes e: "epoch be model x L A i s = Inr s'"
  shows "\<exists>y_hat loss acc.
        forward be (mem s) model x L A = Inr y_hat \<and>
        binary_cross_entropy_with_logits
          (py_slice None (Some (int (length (y_train (lab s))))) y_hat) (y_train (lab s)) = Inr loss \<and>
        accuracy (py_slice (Some (- int (length (y_train (lab s))))) None (threshold y_hat))
          (y_train (lab s)) = Inr acc \<and>
        (if i mod test_interval = 0
         then \<exists>y_hat_test test_accuracy.
                forward be (mem s') model x L A = Inr y_hat_test \<and>
                accuracy (py_slice (Some (- int (length (y_test (lab s))))) None
                            (threshold y_hat_test)) (y_test (lab s)) = Inr test_accuracy \<and>
                out s' = out s @ [EpochLine i (mean [loss]) acc, TestLine test_accuracy]
         else out s' = out s @ [EpochLine i (mean [loss]) acc])"
  using e unfolding epoch_def bindE_def
  by (auto simp: Let_def split: sum.splits prod.splits if_splits)






lemma layers_loop_ok:
  assumes "\<forall>l \<in> set ls. \<exists>y. layer_forward be st l x L A = Inr y"
  shows "\<exists>r. layers_loop be st ls x L A x1 = Inr r"
  using assms
proof (induction ls arbitrary: x1)
  case Nil
  then show ?case by simp
next
  case (Cons l ls)
  then obtain y where "layer_forward be st l x L A = Inr y" by auto
  moreover from Cons obtain r where "layers_loop be st ls x L A (Some y) = Inr r" by fastforce
  ultimately show ?case by (simp add: bindE_def)
qed

lemma rows_const: "(\<forall>r \<in> set t. length r = n) \<longleftrightarrow> map length t = replicate (length t) n"
  by (induction t) auto

lemma py_slice_prefix: "k \<le> length xs \<Longrightarrow> py_slice None (Some (int k)) xs = take k xs"
  by (simp add: py_slice_def slice_bounds_def min_def)

lemma py_slice_suffix:
  "0 < k \<Longrightarrow> k \<le> length xs \<Longrightarrow> py_slice (Some (- int k)) None xs = drop (length xs - k) xs"
  by (simp add: py_slice_def slice_bounds_def max_def nat_diff_distrib' of_nat_diff)

lemma forward_ok:
  assumes ly: "map_of (m_dict model) ''layers'' = Some layers"
    and lf: "\<forall>l \<in> set layers. \<exists>y. layer_forward be st l x L A = Inr y"
    and lin: "linear_of model = Some (aw, ab)"
    and w: "length (st aw) = 2" and b: "map length (st ab) = [2]"
    and c: "\<forall>w \<in> set (st aw). \<forall>r \<in> set x. length r = length w"
  shows "\<exists>y. forward be st model x L A = Inr y \<and> length y = length x \<and> (\<forall>r \<in> set y. length r = 2)"
proof -
  from lf obtain x1 where 1: "layers_loop be st layers x L A None = Inr x1"
    using layers_loop_ok by blast
  from lin obtain lm where 2: "map_of (m_modules model) ''linear'' = Some lm"
    and 3: "map_of (m_parameters lm) ''weight'' = Some aw"
    and 4: "map_of (m_parameters lm) ''bias'' = Some ab"
    by (auto simp: linear_of_def split: option.splits)
  from b obtain bv where 5: "st ab = [bv]" and 6: "length bv = 2"
    by (cases "st ab") auto
  have 7: "Linear_forward st lm x = Inr (map (\<lambda>r. map2 (\<lambda>w bj. dot w r + bj) (st aw) bv) x)"
    using 3 4 5 6 w c by (auto simp: Linear_forward_def)
  have "forward be st model x L A = Inr (softmax (map (\<lambda>r. map2 (\<lambda>w bj. dot w r + bj) (st aw) bv) x))"
    using ly 1 2 7 by (simp add: forward_def bindE_def)
  moreover have "length (softmax (map (\<lambda>r. map2 (\<lambda>w bj. dot w r + bj) (st aw) bv) x)) = length x"
    by (simp add: softmax_def)
  moreover have "\<forall>r \<in> set (softmax (map (\<lambda>r. map2 (\<lambda>w bj. dot w r + bj) (st aw) bv) x)). length r = 2"
    using w 6 by (auto simp: softmax_def softmax_row_def)
  ultimately show ?thesis by blast
qed

lemma bce_ok: "map length p = map length t \<Longrightarrow> \<exists>l. binary_cross_entropy_with_logits p t = Inr l"
  by (simp add: binary_cross_entropy_with_logits_def)

lemma accuracy_ok: "map length p = map length t \<Longrightarrow> \<exists>l. accuracy p t = Inr l"
  by (simp add: accuracy_def)

lemma take_shape:
  assumes "\<forall>r \<in> set y. length r = n" "\<forall>r \<in> set t. length r = n" "length t \<le> length y"
  shows "map length (take (length t) y) = map length t"
proof -
  have "\<forall>r \<in> set (take (length t) y). length r = n" using assms(1) by (auto dest: in_set_takeD)
  hence "map length (take (length t) y) = replicate (length (take (length t) y)) n"
    by (simp only: rows_const)
  moreover have "map length t = replicate (length t) n" using assms(2) by (simp only: rows_const)
  ultimately show ?thesis using assms(3) by simp
qed

lemma drop_shape:
  assumes "\<forall>r \<in> set y. length r = n" "\<forall>r \<in> set t. length r = n" "length t \<le> length y"
  shows "map length (drop (length y - length t) y) = map length t"
proof -
  have "\<forall>r \<in> set (drop (length y - length t) y). length r = n"
    using assms(1) by (auto dest: in_set_dropD)
  hence "map length (drop (length y - length t) y)
         = replicate (length (drop (length y - length t) y)) n"
    by (simp only: rows_const)
  moreover have "map length t = replicate (length t) n" using assms(2) by (simp only: rows_const)
  ultimately show ?thesis using assms(3) by simp
qed




lemma epoch_indices_append: "epoch_indices (xs @ ys) = epoch_indices xs @ epoch_indices ys"
  by (induction xs rule: epoch_indices.induct) auto

lemma after_step_frame:
  "a \<notin> set (param_groups (optimizer s)) \<Longrightarrow> fst (after_step be x L A s) a = mem s a"
  unfolding after_step_def by (rule optimizer_step_frame)

lemma after_step_shape:
  assumes "\<forall>ob g a t. map length (adam_param be ob g a t) = map length t"
  shows "map length (fst (after_step be x L A s) a) = map length (mem s a)"
  unfolding after_step_def using assms by (intro optimizer_step_shape) simp

lemma after_step_groups:
  "param_groups (snd (after_step be x L A s)) = param_groups (optimizer s)"
  unfolding after_step_def by (rule optimizer_step_groups)

lemma shape_facts:
  assumes "map length t' = map length t"
  shows "length t' = length t" and "map length t = [2] \<Longrightarrow> map length t' = [2]"
    and "(\<forall>w \<in> set t. \<forall>r \<in> set x. length r = length w) \<Longrightarrow> (\<forall>w \<in> set t'. \<forall>r \<in> set x. length r = length (w::real list))"
proof -
  show "length t' = length t" using assms by (rule map_eq_imp_length_eq)
  show "map length t = [2] \<Longrightarrow> map length t' = [2]" using assms by simp
  assume a: "\<forall>w \<in> set t. \<forall>r \<in> set x. length r = length w"
  have "length ` set t' = length ` set t" using assms by (metis set_map)
  thus "\<forall>w \<in> set t'. \<forall>r \<in> set x. length r = length w" using a
    by (metis (no_types, lifting) imageE imageI)
qed

lemma epoch_ok:
  assumes c: "conforming be model x L A s"
  shows "\<exists>s'. epoch be model x L A i s = Inr s' \<and> conforming be model x L A s'"
proof -
  from c obtain layers aw ab where ly: "map_of (m_dict model) ''layers'' = Some layers"
    and lf: "\<forall>st. \<forall>l \<in> set layers. \<exists>y. layer_forward be st l x L A = Inr y"
    and lin: "linear_of model = Some (aw, ab)"
    and w: "length (mem s aw) = 2" and b: "map length (mem s ab) = [2]"
    and cw: "\<forall>w \<in> set (mem s aw). \<forall>r \<in> set x. length r = length w"
    and ad: "\<forall>ob g a t. map length (adam_param be ob g a t) = map length t"
    and tr: "0 < length (y_train (lab s))" "length (y_train (lab s)) \<le> length x"
            "\<forall>r \<in> set (y_train (lab s)). length r = 2"
    and te: "0 < length (y_test (lab s))" "length (y_test (lab s)) \<le> length x"
            "\<forall>r \<in> set (y_test (lab s)). length r = 2"
    by (auto simp: conforming_def split: option.splits)
  let ?m = "fst (after_step be x L A s)"
  have sw: "map length (?m aw) = map length (mem s aw)"
    and sb: "map length (?m ab) = map length (mem s ab)"
    using ad by (rule after_step_shape)+
  have w': "length (?m aw) = 2" using shape_facts(1)[OF sw] w by simp
  have b': "map length (?m ab) = [2]" using sb b by simp
  have cw': "\<forall>w \<in> set (?m aw). \<forall>r \<in> set x. length r = length w"
    using shape_facts(3)[OF sw cw] .
  from forward_ok[OF ly _ lin w b cw] lf
  obtain y where f: "forward be (mem s) model x L A = Inr y" and yl: "length y = length x"
    and yr: "\<forall>r \<in> set y. length r = 2" by blast
  from forward_ok[OF ly _ lin w' b' cw'] lf
  obtain yt where ft: "forward be ?m model x L A = Inr yt" and ytl: "length yt = length x"
    and ytr: "\<forall>r \<in> set yt. length r = 2" by blast
  have "map length (py_slice None (Some (int (length (y_train (lab s))))) y)
        = map length (y_train (lab s))"
    using take_shape[of y 2 "y_train (lab s)"] tr yl yr by (simp add: py_slice_prefix)
  then obtain loss where l: "binary_cross_entropy_with_logits
      (py_slice None (Some (int (length (y_train (lab s))))) y) (y_train (lab s)) = Inr loss"
    using bce_ok by blast
  have "map length (py_slice (Some (- int (length (y_train (lab s))))) None (threshold y))
        = map length (y_train (lab s))"
  proof -
    have "length (y_train (lab s)) \<le> length (threshold y)" using tr yl by (simp add: threshold_def)
    moreover have "\<forall>r \<in> set (threshold y). length r = 2" using yr by (auto simp: threshold_def)
    ultimately show ?thesis
      using tr(1,3) drop_shape[of "threshold y" 2 "y_train (lab s)"] by (simp add: py_slice_suffix)
  qed
  then obtain acc where a: "accuracy (py_slice (Some (- int (length (y_train (lab s))))) None
      (threshold y)) (y_train (lab s)) = Inr acc"
    using accuracy_ok by blast
  have "map length (py_slice (Some (- int (length (y_test (lab s))))) None (threshold yt))
        = map length (y_test (lab s))"
  proof -
    have "length (y_test (lab s)) \<le> length (threshold yt)" using te ytl by (simp add: threshold_def)
    moreover have "\<forall>r \<in> set (threshold yt). length r = 2" using ytr by (auto simp: threshold_def)
    ultimately show ?thesis
      using te(1,3) drop_shape[of "threshold yt" 2 "y_test (lab s)"] by (simp add: py_slice_suffix)
  qed
  then obtain tacc where ta: "accuracy (py_slice (Some (- int (length (y_test (lab s))))) None
      (threshold yt)) (y_test (lab s)) = Inr tacc"
    using accuracy_ok by blast
  let ?s' = "s\<lparr>mem := ?m, optimizer := snd (after_step be x L A s),
      out := out s @ EpochLine i (mean [loss]) acc # (if i mod test_interval = 0 then [TestLine tacc] else [])\<rparr>"
  have e: "epoch be model x L A i s = Inr ?s'"
    using f l a ft ta by (rule epoch_Inr_I)
  have "conforming be model x L A ?s'"
    using ly lf lin w' b' cw' ad tr te by (simp add: conforming_def)
  with e show ?thesis by blast
qed

lemma train_loop_ok:
  "conforming be model x L A s \<Longrightarrow> \<exists>s'. train_loop be model x L A is s = Inr s'"
proof (induction "is" arbitrary: s)
  case Nil
  then show ?case by simp
next
  case (Cons i "is")
  from epoch_ok[OF Cons.prems] obtain s1 where "epoch be model x L A i s = Inr s1"
    and "conforming be model x L A s1" by blast
  with Cons.IH[of s1] show ?case by (simp add: bindE_def)
qed

lemma train_loop_frame:
  "train_loop be model x L A is s = Inr s' \<Longrightarrow>
     lab s' = lab s \<and> param_groups (optimizer s') = param_groups (optimizer s) \<and>
     (\<forall>a. a \<notin> set (param_groups (optimizer s)) \<longrightarrow> mem s' a = mem s a)"
proof (induction "is" arbitrary: s)
  case Nil
  then show ?case by simp
next
  case (Cons i "is")
  from Cons.prems obtain s1 where e: "epoch be model x L A i s = Inr s1"
    and t: "train_loop be model x L A is s1 = Inr s'"
    by (auto elim: bindE_InrE)
  from epoch_frame[OF e] have 1: "lab s1 = lab s" "mem s1 = fst (after_step be x L A s)"
    "optimizer s1 = snd (after_step be x L A s)" by simp_all
  from Cons.IH[OF t] 1 show ?case
    by (simp add: after_step_groups after_step_frame)
qed

lemma train_loop_lines:
  "train_loop be model x L A is s = Inr s' \<Longrightarrow>
     epoch_indices (out s') = epoch_indices (out s) @ is"
proof (induction "is" arbitrary: s)
  case Nil
  then show ?case by simp
next
  case (Cons i "is")
  from Cons.prems obtain s1 where e: "epoch be model x L A i s = Inr s1"
    and t: "train_loop be model x L A is s1 = Inr s'"
    by (auto elim: bindE_InrE)
  from epoch_out[OF e] have "epoch_indices (out s1) = epoch_indices (out s) @ [i]"
    by (auto simp: epoch_indices_append split: if_splits)
  with Cons.IH[OF t] show ?case by simp
qed

lemma labels_cell_eq:
  "labels_cell =
     Inr \<lparr>y_true = map (\<lambda>v. [real_of_int v, real_of_int (1 - v)]) y_labels,
          y_test = map (\<lambda>v. [real_of_int v, real_of_int (1 - v)]) (drop 74 y_labels),
          y_train = map (\<lambda>v. [real_of_int v, real_of_int (1 - v)]) (take 30 y_labels)\<rparr>"
  by (simp add: labels_cell_def bindE_def set_column_def zeros_def py_slice_def slice_bounds_def
      y_labels_def y_base_def eval_nat_numeral)

lemma length_y_labels: "length y_labels = 78"
  by (simp add: y_labels_def y_base_def)

lemma take_nth_upt: "k \<le> length xs \<Longrightarrow> take k xs = map ((!) xs) [0..<k]"
  by (simp add: list_eq_iff_nth_eq)

lemma drop_nth_upt: "drop k xs = map ((!) xs) [k..<length xs]"
  by (simp add: list_eq_iff_nth_eq)

lemma labels_cell_shape:
  assumes "labels_cell = Inr l"
  shows "length (y_true l) = 78" and "length (y_train l) = 30" and "length (y_test l) = 4"
    and "\<forall>r \<in> set (y_train l). length r = 2" and "\<forall>r \<in> set (y_test l). length r = 2"
    and "y_train l = take 30 (y_true l)" and "y_test l = drop 74 (y_true l)"
  using assms unfolding labels_cell_eq
  by (auto simp: length_y_labels take_map drop_map dest: in_set_takeD in_set_dropD)

lemma make_layers_fresh:
  assumes "allocates_fresh be"
  shows "make_layers be c n a = (ls, a1) \<Longrightarrow>
           a \<le> a1 \<and> length ls = n \<and> (\<forall>l \<in> set ls. set (named_params l) \<subseteq> {a..<a1})"
proof (induction n arbitrary: a ls a1)
  case 0
  then show ?case by simp
next
  case (Suc n)
  obtain l a' where 1: "layer_init be c a = (l, a')" by (cases "layer_init be c a")
  obtain ls' a'' where 2: "make_layers be c n a' = (ls', a'')" by (cases "make_layers be c n a'")
  from Suc.prems 1 2 have 3: "ls = l # ls'" "a1 = a''" by simp_all
  from assms 1 have 4: "a \<le> a'" "set (named_params l) \<subseteq> {a..<a'}"
    unfolding allocates_fresh_def by (metis (mono_tags, lifting) case_prod_conv)+
  from Suc.IH[OF 2] have 5: "a' \<le> a''" "length ls' = n"
    "\<forall>l \<in> set ls'. set (named_params l) \<subseteq> {a'..<a''}" by simp_all
  from 5(3) 4(1) have 6: "\<forall>l \<in> set ls'. set (named_params l) \<subseteq> {a..<a''}"
    by fastforce
  from 4(2) 5(1) have 7: "set (named_params l) \<subseteq> {a..<a''}" by force
  show ?case unfolding 3 using 4(1) 5(1,2) 6 7 by simp
qed

lemma Dist2Cycle_init_eq:
  "Dist2Cycle_init be c n a =
     (case make_layers be c n a of
        (ls, a1) \<Rightarrow>
          (Module [] [(''linear'', Module [(''weight'', a1), (''bias'', a1 + 1)] [] [])]
             [(''layers'', ls)], a1 + 2))"
  by (simp add: Dist2Cycle_init_def Linear_init_def split: prod.splits)

lemma notebook_init_Inr:
  assumes "labels_cell = Inr l" and "make_layers be channels_nodes 10 0 = (ls, a1)"
  shows "notebook_init be ob st =
     Inr (Module [] [(''linear'', Module [(''weight'', a1), (''bias'', a1 + 1)] [] [])]
            [(''layers'', ls)],
          \<lparr>mem = st, optimizer = \<lparr>param_groups = [a1, a1 + 1], opt_state = ob\<rparr>,
           lab = l, out = []\<rparr>)"
  by (simp add: assms notebook_init_def Dist2Cycle_init_eq parameters_def Adam_init_def bindE_def)

lemma demo_make_layers:
  "make_layers demo_backend c 10 0 =
     (map (\<lambda>k. Module [] [(''fc_neigh'', Module [(''weight'', 2 * k), (''bias'', 2 * k + 1)] [] [])] [])
        [0, 1, 2, 3, 4, 5, 6, 7, 8, 9], 20)"
  by (simp add: eval_nat_numeral demo_backend_def Linear_init_def)

lemma demo_notebook_init:
  assumes "labels_cell = Inr l"
  shows "notebook_init demo_backend 0 st =
     Inr (Module [] [(''linear'', Module [(''weight'', 20), (''bias'', 21)] [] [])]
            [(''layers'',
              map (\<lambda>k. Module [] [(''fc_neigh'',
                                     Module [(''weight'', 2 * k), (''bias'', 2 * k + 1)] [] [])] [])
                [0, 1, 2, 3, 4, 5, 6, 7, 8, 9])],
          \<lparr>mem = st, optimizer = \<lparr>param_groups = [20, 21], opt_state = 0\<rparr>,
           lab = l, out = []\<rparr>)"
  using notebook_init_Inr[OF assms demo_make_layers, of 0 st] by simp

lemma demo_conforming:
  assumes "labels_cell = Inr l" and "notebook_init demo_backend 0 st = Inr (model, s0)"
    and 2: "length (st 20) = 2" "map length (st 21) = [2]"
      "\<forall>w \<in> set (st 20). \<forall>r \<in> set x. length r = length w"
    and 5: "length x = 78"
  shows "conforming demo_backend model x Linv adjacency s0"
proof -
  from assms(2) have m: "model = Module [] [(''linear'', Module [(''weight'', 20), (''bias'', 21)] [] [])]
            [(''layers'',
              map (\<lambda>k. Module [] [(''fc_neigh'',
                                     Module [(''weight'', 2 * k), (''bias'', 2 * k + 1)] [] [])] [])
                [0, 1, 2, 3, 4, 5, 6, 7, 8, 9])]"
    and s: "s0 = \<lparr>mem = st, optimizer = \<lparr>param_groups = [20, 21], opt_state = 0\<rparr>,
           lab = l, out = []\<rparr>"
    unfolding demo_notebook_init[OF assms(1)] by simp_all
  have 1: "linear_of model = Some (20, 21)" unfolding m by (simp add: linear_of_def)
  have 3: "\<forall>ob g a t. map length (adam_param demo_backend ob g a t) = map length t"
    by (simp add: demo_backend_def comp_def)
  have 4: "\<forall>st layer. \<exists>y. layer_forward demo_backend st layer x Linv adjacency = Inr y"
    by (simp add: demo_backend_def)
  show ?thesis
    unfolding conforming_def
    using 1 2 3 4 5 labels_cell_shape[OF assms(1)]
    by (simp add: m s)
qed

lemma train_loop_Inl:
  "train_loop be model x L A is s = Inl e \<Longrightarrow>
     \<exists>i s1. i \<in> set is \<and> epoch be model x L A i s1 = Inl e"
proof (induction "is" arbitrary: s)
  case Nil
  then show ?case by simp
next
  case (Cons i "is")
  show ?case
  proof (cases "epoch be model x L A i s")
    case (Inl e')
    with Cons.prems have "e' = e" by (simp add: bindE_def)
    with Inl show ?thesis by auto
  next
    case (Inr s1)
    with Cons.prems have "train_loop be model x L A is s1 = Inl e" by (simp add: bindE_def)
    from Cons.IH[OF this] show ?thesis by auto
  qed
qed

lemma demo_run:
  "\<exists>l model s0 s'. labels_cell = Inr l \<and>
     notebook_init demo_backend 0 demo_mem = Inr (model, s0) \<and>
     conforming demo_backend model demo_x_1e demo_x_1e demo_x_1e s0 \<and>
     train demo_backend model demo_x_1e demo_x_1e demo_x_1e 60 s0 = Inr s' \<and>
     mem s0 = demo_mem \<and> out s0 = [] \<and> param_groups (optimizer s0) = [20, 21]"
proof -
  obtain l where l: "labels_cell = Inr l" using labels_cell_eq by blast
  obtain model s0 where i: "notebook_init demo_backend 0 demo_mem = Inr (model, s0)"
    and s0: "mem s0 = demo_mem" "out s0 = []" "param_groups (optimizer s0) = [20, 21]"
    using demo_notebook_init[OF l] by simp
  have c: "conforming demo_backend model demo_x_1e demo_x_1e demo_x_1e s0"
    using l i by (rule demo_conforming) (simp_all add: demo_mem_def demo_x_1e_def)
  from train_loop_ok[OF c] obtain s'
    where "train demo_backend model demo_x_1e demo_x_1e demo_x_1e 60 s0 = Inr s'"
    unfolding train_def by blast
  with l i c s0 show ?thesis by blast
qed

section \<open>Properties of the notebook\<close>

text \<open>
  C9. Running the training loop with an epoch count of 0 returns the state it was given:
  no optimizer step is taken, and every parameter, the optimizer and the console output are as
  they were at initialisation.
\<close>

theorem train_zero_epochs: "train be model x_1e Linv adjacency 0 s = Inr s"
  by (simp add: train_def)

theorem train_zero_epochs_witness:
  "\<exists>model s0. notebook_init demo_backend 0 demo_mem = Inr (model, s0) \<and>
     train demo_backend model demo_x_1e demo_x_1e demo_x_1e 0 s0 = Inr s0 \<and>
     mem s0 = demo_mem \<and> out s0 = []"
proof -
  from demo_run obtain l model s0 s' where
    i: "notebook_init demo_backend 0 demo_mem = Inr (model, s0)"
    and s0: "mem s0 = demo_mem" "out s0 = []" by blast
  from i s0 train_zero_epochs[of demo_backend model demo_x_1e demo_x_1e demo_x_1e s0]
  show ?thesis by blast
qed

text \<open>
  C6. The training loop runs exactly \<open>num_epochs\<close> iterations: under shape conformance it
  returns, and the epochs it has printed are exactly \<open>1, ..., num_epochs\<close> in order; whenever
  it returns, that is what it has printed; and it stops early only when the body of some epoch
  itself raises, the failure being passed on unchanged.
\<close>

theorem train_runs_num_epochs:
  "(conforming be model x_1e Linv adjacency s \<longrightarrow>
      (\<exists>s'. train be model x_1e Linv adjacency num_epochs s = Inr s')) \<and>
   (\<forall>s'. train be model x_1e Linv adjacency num_epochs s = Inr s' \<longrightarrow>
      epoch_indices (out s') = epoch_indices (out s) @ [1..num_epochs] \<and>
      length [1..num_epochs] = nat num_epochs) \<and>
   (\<forall>e. train be model x_1e Linv adjacency num_epochs s = Inl e \<longrightarrow>
      (\<exists>i s1. i \<in> set [1..num_epochs] \<and> epoch be model x_1e Linv adjacency i s1 = Inl e))"
  unfolding train_def
  using train_loop_ok[of be model x_1e Linv adjacency s "[1..num_epochs]"]
    train_loop_lines[of be model x_1e Linv adjacency "[1..num_epochs]" s]
    train_loop_Inl[of be model x_1e Linv adjacency "[1..num_epochs]" s]
  by simp

theorem train_runs_num_epochs_witness:
  "\<exists>model s0 s'. notebook_init demo_backend 0 demo_mem = Inr (model, s0) \<and>
     train demo_backend model demo_x_1e demo_x_1e demo_x_1e 60 s0 = Inr s' \<and>
     epoch_indices (out s') = [1..60] \<and> length (epoch_indices (out s')) = 60"
proof -
  from demo_run obtain l model s0 where
    i: "notebook_init demo_backend 0 demo_mem = Inr (model, s0)"
    and c: "conforming demo_backend model demo_x_1e demo_x_1e demo_x_1e s0"
    and o: "out s0 = []" by blast
  note th = train_runs_num_epochs[of demo_backend model demo_x_1e demo_x_1e demo_x_1e s0 60]
  from th c obtain s' where
    t: "train demo_backend model demo_x_1e demo_x_1e demo_x_1e 60 s0 = Inr s'" by blast
  from th t o
  have "epoch_indices (out s') = [1..60]" "length (epoch_indices (out s')) = 60" by simp_all
  with i t show ?thesis by blast
qed

text \<open>
  C10. The label cell yields 78 ground-truth rows; \<^verbatim>\<open>y_true[:30]\<close> selects the rows 0 to 29
  and \<^verbatim>\<open>y_true[-4:]\<close> the rows 74 to 77, so the training and the test labels are the rows of
  two disjoint index ranges; and the train and test labels of the notebook's state are those of
  the label cell before and after any number of training epochs.
\<close>

theorem labels_split_disjoint_unchanged:
  "\<exists>l. labels_cell = Inr l \<and> length (y_true l) = 78 \<and>
       slice_bounds None (Some 30) (length (y_true l)) = (0, 30) \<and>
       slice_bounds (Some (- 4)) None (length (y_true l)) = (74, 78) \<and>
       y_train l = map ((!) (y_true l)) [0..<30] \<and>
       y_test l = map ((!) (y_true l)) [74..<78] \<and>
       set [0..<30] \<inter> set [74..<78] = ({} :: nat set) \<and>
       (\<forall>(be :: 'o backend) ob st model s0 x_1e Linv adjacency num_epochs s'.
          notebook_init be ob st = Inr (model, s0) \<longrightarrow>
          train be model x_1e Linv adjacency num_epochs s0 = Inr s' \<longrightarrow>
          lab s0 = l \<and> lab s' = l)"
proof -
  obtain l where l: "labels_cell = Inr l" using labels_cell_eq by blast
  note sh = labels_cell_shape[OF l]
  have 1: "slice_bounds None (Some 30) (length (y_true l)) = (0, 30)"
    and 2: "slice_bounds (Some (- 4)) None (length (y_true l)) = (74, 78)"
    by (simp_all add: sh(1) slice_bounds_def)
  have 3: "y_train l = map ((!) (y_true l)) [0..<30]"
    using sh(1) by (simp add: sh(6) take_nth_upt)
  have 4: "y_test l = map ((!) (y_true l)) [74..<78]"
    using drop_nth_upt[of 74 "y_true l"] by (simp add: sh(7) sh(1))
  have 5: "set [0..<30] \<inter> set [74..<78] = ({} :: nat set)" by auto
  have 6: "lab s0 = l \<and> lab s' = l"
    if i: "notebook_init be ob st = Inr (model, s0)"
      and t: "train be model x_1e Linv adjacency num_epochs s0 = Inr s'"
    for be :: "'o backend" and ob st model s0 x_1e Linv adjacency num_epochs s'
  proof -
    obtain ls a1 where "make_layers be channels_nodes 10 0 = (ls, a1)"
      by (cases "make_layers be channels_nodes 10 0")
    from notebook_init_Inr[OF l this, of ob st] i have "lab s0 = l" by auto
    moreover from t have "lab s' = lab s0"
      unfolding train_def by (simp add: train_loop_frame)
    ultimately show ?thesis by simp
  qed
  from l sh(1) 1 2 3 4 5 6 show ?thesis by blast
qed

theorem labels_split_disjoint_unchanged_witness:
  "\<exists>l model s0 s'. labels_cell = Inr l \<and>
     notebook_init demo_backend 0 demo_mem = Inr (model, s0) \<and>
     train demo_backend model demo_x_1e demo_x_1e demo_x_1e 60 s0 = Inr s' \<and>
     lab s' = l \<and> y_train (lab s') = map ((!) (y_true l)) [0..<30] \<and>
     y_test (lab s') = map ((!) (y_true l)) [74..<78]"
proof -
  from demo_run obtain l0 model s0 s' where
    i: "notebook_init demo_backend 0 demo_mem = Inr (model, s0)"
    and t: "train demo_backend model demo_x_1e demo_x_1e demo_x_1e 60 s0 = Inr s'"
    by blast
  from labels_split_disjoint_unchanged[where 'o = nat] obtain l where
    l: "labels_cell = Inr l" "y_train l = map ((!) (y_true l)) [0..<30]"
      "y_test l = map ((!) (y_true l)) [74..<78]"
    and f: "\<forall>be :: nat backend. \<forall>ob st model s0 x_1e Linv adjacency num_epochs s'.
          notebook_init be ob st = Inr (model, s0) \<longrightarrow>
          train be model x_1e Linv adjacency num_epochs s0 = Inr s' \<longrightarrow>
          lab s0 = l \<and> lab s' = l"
    by blast
  from f i t have "lab s' = l" by blast
  with l i t show ?thesis by blast
qed

lemma train_frame:
  assumes "train be model x_1e Linv adjacency num_epochs s = Inr s'"
    and "p \<notin> set (param_groups (optimizer s))"
  shows "mem s' p = mem s p"
  using assms unfolding train_def by (simp add: train_loop_frame)

text \<open>
  C3. For a model built by \<^verbatim>\<open>Dist2Cycle.__init__\<close> from a layer constructor that allocates
  fresh parameters, \<^verbatim>\<open>model.parameters()\<close> is exactly the weight and the bias of
  \<^verbatim>\<open>self.linear\<close>: the layers sit in a plain list among the ordinary attributes and are
  not registered submodules. So the Adam optimizer built from it holds these two parameters only,
  no parameter of a layer is among them, and an optimizer step, and hence any number of training
  epochs, leaves every parameter of every layer as it was.
\<close>

theorem optimizer_holds_only_linear:
  assumes "allocates_fresh be"
    and "Dist2Cycle_init be channels n_layers a0 = (model, a2)"
    and "Adam_init (parameters model) ob = Inr opt"
  shows "\<exists>aw ab layers.
     linear_of model = Some (aw, ab) \<and> parameters model = [aw, ab] \<and>
     param_groups opt = [aw, ab] \<and>
     map_of (m_dict model) ''layers'' = Some layers \<and> length layers = n_layers \<and>
     map_of (m_modules model) ''layers'' = None \<and>
     (\<forall>l \<in> set layers. \<forall>p \<in> set (parameters l).
        p \<notin> set (param_groups opt) \<and>
        (\<forall>g st. fst (optimizer_step be opt g st) p = st p) \<and>
        (\<forall>s x_1e Linv adjacency num_epochs s'.
           optimizer s = opt \<longrightarrow>
           train be model x_1e Linv adjacency num_epochs s = Inr s' \<longrightarrow>
           mem s' p = mem s p))"
proof -
  obtain layers a1 where ml: "make_layers be channels n_layers a0 = (layers, a1)"
    by (cases "make_layers be channels n_layers a0")
  from assms(2) have m: "model =
      Module [] [(''linear'', Module [(''weight'', a1), (''bias'', a1 + 1)] [] [])]
        [(''layers'', layers)]"
    by (simp add: Dist2Cycle_init_eq ml)
  have 1: "linear_of model = Some (a1, a1 + 1)" unfolding m by (simp add: linear_of_def)
  have 2: "parameters model = [a1, a1 + 1]" unfolding m by (simp add: parameters_def)
  from assms(3) have 3: "param_groups opt = [a1, a1 + 1]"
    unfolding 2 by (auto simp: Adam_init_def)
  have 4: "map_of (m_dict model) ''layers'' = Some layers"
    and 5: "map_of (m_modules model) ''layers'' = None" unfolding m by simp_all
  from make_layers_fresh[OF assms(1) ml] have 6: "length layers = n_layers"
    and fr: "\<forall>l \<in> set layers. set (named_params l) \<subseteq> {a0..<a1}" by simp_all
  have 7: "p \<notin> set (param_groups opt)" if "l \<in> set layers" "p \<in> set (parameters l)" for l p
  proof -
    from that(2) have "p \<in> set (named_params l)" by (simp add: parameters_def)
    with fr that(1) have "p < a1" by fastforce
    thus ?thesis unfolding 3 by simp
  qed
  have 8: "\<forall>l \<in> set layers. \<forall>p \<in> set (parameters l).
        p \<notin> set (param_groups opt) \<and>
        (\<forall>g st. fst (optimizer_step be opt g st) p = st p) \<and>
        (\<forall>s x_1e Linv adjacency num_epochs s'.
           optimizer s = opt \<longrightarrow>
           train be model x_1e Linv adjacency num_epochs s = Inr s' \<longrightarrow>
           mem s' p = mem s p)"
    using 7 by (auto simp: optimizer_step_frame intro: train_frame)
  from 1 2 3 4 5 6 8 show ?thesis by blast
qed

lemma demo_allocates_fresh: "allocates_fresh demo_backend"
  by (simp add: allocates_fresh_def demo_backend_def Linear_init_def)

theorem optimizer_holds_only_linear_witness:
  "\<exists>model s0 s' layers.
     notebook_init demo_backend 0 demo_mem = Inr (model, s0) \<and>
     parameters model = [20, 21] \<and> param_groups (optimizer s0) = [20, 21] \<and>
     map_of (m_dict model) ''layers'' = Some layers \<and> length layers = 10 \<and>
     parameters (layers ! 0) = [0, 1] \<and>
     train demo_backend model demo_x_1e demo_x_1e demo_x_1e 60 s0 = Inr s' \<and>
     mem s' 0 = demo_mem 0 \<and> mem s' 1 = demo_mem 1"
proof -
  from demo_run obtain l model s0 s' where
    l: "labels_cell = Inr l"
    and i: "notebook_init demo_backend 0 demo_mem = Inr (model, s0)"
    and t: "train demo_backend model demo_x_1e demo_x_1e demo_x_1e 60 s0 = Inr s'"
    and s0: "mem s0 = demo_mem" "param_groups (optimizer s0) = [20, 21]"
    by blast
  let ?ls = "map (\<lambda>k. Module [] [(''fc_neigh'',
                 Module [(''weight'', 2 * k), (''bias'', 2 * k + 1)] [] [])] [])
               [0, 1, 2, 3, 4, 5, 6, 7, 8, 9 :: nat]"
  from i have m: "model = Module [] [(''linear'', Module [(''weight'', 20), (''bias'', 21)] [] [])]
            [(''layers'', ?ls)]"
    and o: "optimizer s0 = \<lparr>param_groups = [20, 21], opt_state = 0\<rparr>"
    unfolding demo_notebook_init[OF l] by auto
  have d: "Dist2Cycle_init demo_backend channels_nodes 10 0 = (model, 22)"
    unfolding m by (simp add: Dist2Cycle_init_eq demo_make_layers)
  have a: "Adam_init (parameters model) 0 = Inr (optimizer s0)"
    unfolding m o by (simp add: Adam_init_def parameters_def)
  from optimizer_holds_only_linear[OF demo_allocates_fresh d a]
  obtain aw ab layers where all:
    "linear_of model = Some (aw, ab) \<and> parameters model = [aw, ab] \<and>
     param_groups (optimizer s0) = [aw, ab] \<and>
     map_of (m_dict model) ''layers'' = Some layers \<and> length layers = 10 \<and>
     map_of (m_modules model) ''layers'' = None \<and>
     (\<forall>l \<in> set layers. \<forall>p \<in> set (parameters l).
        p \<notin> set (param_groups (optimizer s0)) \<and>
        (\<forall>g st. fst (optimizer_step demo_backend (optimizer s0) g st) p = st p) \<and>
        (\<forall>s x_1e Linv adjacency num_epochs s'.
           optimizer s = optimizer s0 \<longrightarrow>
           train demo_backend model x_1e Linv adjacency num_epochs s = Inr s' \<longrightarrow>
           mem s' p = mem s p))"
    by (elim exE)
  from all have p: "parameters model = [aw, ab]" "param_groups (optimizer s0) = [aw, ab]"
      "map_of (m_dict model) ''layers'' = Some layers" "length layers = 10"
    by simp_all
  from all have f: "\<And>l p. l \<in> set layers \<Longrightarrow> p \<in> set (parameters l) \<Longrightarrow>
      train demo_backend model demo_x_1e demo_x_1e demo_x_1e 60 s0 = Inr s' \<Longrightarrow>
      mem s' p = mem s0 p"
    by blast
  from p(3) have ls: "layers = ?ls" unfolding m by simp
  have p0: "parameters (layers ! 0) = [0, 1]" unfolding ls by (simp add: parameters_def)
  have "layers ! 0 \<in> set layers" unfolding ls by simp
  with f[of "layers ! 0" 0] f[of "layers ! 0" 1] p0 t
  have "mem s' 0 = mem s0 0" "mem s' 1 = mem s0 1" by simp_all
  with p s0 i t p0 show ?thesis by auto
qed

lemma conforming_forward:
  assumes "conforming be model x L A s"
  shows "\<exists>y aw ab. forward be (mem s) model x L A = Inr y \<and>
           linear_of model = Some (aw, ab) \<and> length (mem s aw) = 2"
proof -
  from assms obtain layers aw ab where ly: "map_of (m_dict model) ''layers'' = Some layers"
    and lf: "\<forall>st. \<forall>l \<in> set layers. \<exists>y. layer_forward be st l x L A = Inr y"
    and lin: "linear_of model = Some (aw, ab)"
    and w: "length (mem s aw) = 2" and b: "map length (mem s ab) = [2]"
    and cw: "\<forall>w \<in> set (mem s aw). \<forall>r \<in> set x. length r = length w"
    by (auto simp: conforming_def split: option.splits)
  from forward_ok[OF ly _ lin w b cw] lf
  obtain y where "forward be (mem s) model x L A = Inr y" by blast
  with lin w show ?thesis by blast
qed

lemma f32_overflow_val: "f32_overflow = 340282356779733661637539395458142568448"
  by (simp add: f32_overflow_def)

lemma f32_range_Fin: "- f32_overflow < r \<Longrightarrow> r < f32_overflow \<Longrightarrow> f32_range r = Fin r"
  by (simp add: f32_range_def)

lemma f32_sum_PInf:
  "fold (\<lambda>x acc. f32_add acc x) (replicate n (Fin c)) PInf = PInf"
  by (induction n) simp_all

lemma f32_sum_ones:
  "k + real n < f32_overflow \<Longrightarrow> 0 \<le> k \<Longrightarrow>
     fold (\<lambda>x acc. f32_add acc x) (replicate n (Fin 1)) (Fin k) = Fin (k + real n)"
proof (induction n arbitrary: k)
  case 0
  then show ?case by simp
next
  case (Suc n)
  have "f32_range (k + 1) = Fin (k + 1)"
    using Suc.prems by (intro f32_range_Fin) (simp_all add: f32_overflow_val)
  moreover have "fold (\<lambda>x acc. f32_add acc x) (replicate n (Fin 1)) (Fin (k + 1))
      = Fin (k + 1 + real n)"
    using Suc.prems by (intro Suc.IH) simp_all
  ultimately show ?case by (simp add: add.assoc add.commute)
qed

lemma replicate_78: "replicate 78 x = x # x # x # x # replicate 74 x"
proof -
  have "(78::nat) = Suc (Suc (Suc (Suc 74)))" by simp
  thus ?thesis by (simp only: replicate_Suc)
qed

lemma huge_dot: "f32_dot (replicate 78 (Fin 1)) (replicate 78 (Fin (10 ^ 38))) = PInf"
proof -
  have "map2 f32_mul (replicate 78 (Fin 1)) (replicate 78 (Fin (10 ^ 38)))
        = replicate 78 (Fin (10 ^ 38))"
    by (simp add: zip_replicate f32_range_def f32_overflow_val)
  thus ?thesis
    unfolding f32_dot_def f32_sum_def
    by (simp add: replicate_78 f32_range_def f32_overflow_val f32_sum_PInf del: fold_replicate)
qed

lemma ones_dot: "f32_dot (replicate 78 (Fin 1)) (replicate 78 (Fin 1)) = Fin 78"
proof -
  have "map2 f32_mul (replicate 78 (Fin 1)) (replicate 78 (Fin 1)) = replicate 78 (Fin 1)"
    by (simp add: zip_replicate f32_range_def f32_overflow_val)
  thus ?thesis
    unfolding f32_dot_def f32_sum_def
    using f32_sum_ones[of 0 78] by (simp add: f32_overflow_val)
qed

lemma the_model_eq:
  "the_model =
     Module [] [(''linear'', Module [(''weight'', 20), (''bias'', 21)] [] [])]
       [(''layers'',
         map (\<lambda>k. Module [] [(''fc_neigh'',
                                Module [(''weight'', 2 * k), (''bias'', 2 * k + 1)] [] [])] [])
           [0, 1, 2, 3, 4, 5, 6, 7, 8, 9])]"
  by (simp add: the_model_def Dist2Cycle_init_eq demo_make_layers)

lemma layers_loop_f32_id:
  "layers_loop_f32 (\<lambda>st layer x_1e Linv adjacency. Inr x_1e) st ls x L A x1
     = Inr (if ls = [] then x1 else Some x)"
  by (induction ls arbitrary: x1) (simp_all add: bindE_def)

lemma replicate_2: "replicate 2 w = [w, w]"
  by (simp add: numeral_2_eq_2)

lemma forward_f32_ones_mem:
  assumes "f32_dot (replicate 78 (Fin 1)) r = d"
  shows "forward_f32 (\<lambda>st layer x_1e Linv adjacency. Inr x_1e) ones_f32_mem the_model
           (replicate 78 r) (replicate 78 r) (replicate 78 r)
         = (if length r = 78 then Inr (replicate 78 (softmax_row_f32 [f32_add d (Fin 0), f32_add d (Fin 0)]))
            else Inl ShapeError)"
  unfolding forward_f32_def the_model_eq
  by (simp add: layers_loop_f32_id bindE_def Linear_forward_f32_def ones_f32_mem_def replicate_2
      softmax_f32_def assms)

text \<open>
  C4, as stated, fails. The input whose entries are all \<open>10\<^sup>3\<^sup>8\<close> is finite, the logits
  overflow to \<open>+\<infinity>\<close>, and every entry the forward pass returns is NaN, which is not
  non-negative.
\<close>

theorem forward_f32_overflow_counterexample:
  "list_all (list_all f32_finite) huge_x_1e \<and>
   forward_f32 (\<lambda>st layer x_1e Linv adjacency. Inr x_1e) ones_f32_mem the_model
     huge_x_1e huge_x_1e huge_x_1e = Inr (replicate 78 [NaN, NaN]) \<and>
   \<not> f32_nonneg NaN"
proof -
  have 1: "list_all (list_all f32_finite) huge_x_1e"
    by (simp add: huge_x_1e_def list_all_iff)
  have 2: "forward_f32 (\<lambda>st layer x_1e Linv adjacency. Inr x_1e) ones_f32_mem the_model
     huge_x_1e huge_x_1e huge_x_1e = Inr (replicate 78 [NaN, NaN])"
    unfolding huge_x_1e_def forward_f32_ones_mem[OF huge_dot]
    by (simp add: softmax_row_f32_def f32_sub_def f32_sum_def)
  from 1 2 show ?thesis by simp
qed

lemma shifted_exp:
  assumes "a \<le> m"
  shows "\<exists>u. f32_exp (f32_sub (Fin a) (Fin m)) = Fin u \<and> 0 \<le> u \<and> u \<le> 1 \<and> (a = m \<longrightarrow> u = 1)"
proof (cases "a - m \<le> - f32_overflow")
  case True
  hence "f32_sub (Fin a) (Fin m) = NInf"
    by (simp add: f32_sub_def f32_range_def f32_overflow_val)
  moreover from True have "a \<noteq> m" by (auto simp: f32_overflow_val)
  ultimately show ?thesis by simp
next
  case False
  with assms have "f32_sub (Fin a) (Fin m) = Fin (a - m)"
    by (simp add: f32_sub_def f32_range_def f32_overflow_val)
  moreover have e: "exp (a - m) \<le> 1" "0 < exp (a - m)" using assms by simp_all
  have "f32_range (exp (a - m)) = Fin (exp (a - m))"
  proof (rule f32_range_Fin)
    show "- f32_overflow < exp (a - m)" unfolding f32_overflow_val using e(2) by linarith
    show "exp (a - m) < f32_overflow" unfolding f32_overflow_val using e(1) by linarith
  qed
  ultimately show ?thesis using assms by simp
qed

lemma softmax_row_f32_pair:
  "\<exists>p q. softmax_row_f32 [Fin a, Fin b] = [Fin p, Fin q] \<and> 0 \<le> p \<and> 0 \<le> q \<and> p + q = 1"
proof -
  let ?m = "max a b"
  from shifted_exp[of a ?m] obtain u where
    u: "f32_exp (f32_sub (Fin a) (Fin ?m)) = Fin u" "0 \<le> u" "u \<le> 1" "a = ?m \<longrightarrow> u = 1"
    by auto
  from shifted_exp[of b ?m] obtain v where
    v: "f32_exp (f32_sub (Fin b) (Fin ?m)) = Fin v" "0 \<le> v" "v \<le> 1" "b = ?m \<longrightarrow> v = 1"
    by auto
  from u(4) v(4) have "u = 1 \<or> v = 1" by (auto simp: max_def split: if_splits)
  with u(2,3) v(2,3) have s: "1 \<le> u + v" "u + v \<le> 2" by auto
  have 1: "f32_row_max [Fin a, Fin b] = Fin ?m" by simp
  have 2: "f32_sum [Fin u, Fin v] = Fin (u + v)"
    using u(2,3) s by (simp add: f32_sum_def f32_range_def f32_overflow_val)
  have 3: "f32_div (Fin u) (Fin (u + v)) = Fin (u / (u + v))"
    "f32_div (Fin v) (Fin (u + v)) = Fin (v / (u + v))"
  proof -
    have q: "0 \<le> u / (u + v)" "u / (u + v) \<le> 1" "0 \<le> v / (u + v)" "v / (u + v) \<le> 1"
      using u(2) v(2) s by (simp_all add: field_simps)
    have ru: "f32_range (u / (u + v)) = Fin (u / (u + v))"
    proof (rule f32_range_Fin)
      show "- f32_overflow < u / (u + v)" unfolding f32_overflow_val using q(1) by linarith
      show "u / (u + v) < f32_overflow" unfolding f32_overflow_val using q(2) by linarith
    qed
    have rv: "f32_range (v / (u + v)) = Fin (v / (u + v))"
    proof (rule f32_range_Fin)
      show "- f32_overflow < v / (u + v)" unfolding f32_overflow_val using q(3) by linarith
      show "v / (u + v) < f32_overflow" unfolding f32_overflow_val using q(4) by linarith
    qed
    have nz: "u + v \<noteq> 0" using s by linarith
    show "f32_div (Fin u) (Fin (u + v)) = Fin (u / (u + v))"
      using nz by (simp add: ru)
    show "f32_div (Fin v) (Fin (u + v)) = Fin (v / (u + v))"
      using nz by (simp add: rv)
  qed
  have "softmax_row_f32 [Fin a, Fin b] = [Fin (u / (u + v)), Fin (v / (u + v))]"
    unfolding softmax_row_f32_def Let_def 1
    by (simp add: u(1) v(1) 2 3 del: f32_div.simps f32_exp.simps f32_add.simps)
  moreover have "0 \<le> u / (u + v)" "0 \<le> v / (u + v)"
    using u(2) v(2) s by simp_all
  moreover have "u / (u + v) + v / (u + v) = 1"
  proof -
    have "u + v \<noteq> 0" using s by linarith
    thus ?thesis by (simp add: add_divide_distrib[symmetric])
  qed
  ultimately show ?thesis by blast
qed

lemma finite_pair:
  assumes "length r = 2" and "\<forall>v \<in> set r. f32_finite v"
  shows "\<exists>a b. r = [Fin a, Fin b]"
proof -
  from assms(1) obtain x y where r: "r = [x, y]"
    by (cases r; cases "tl r") auto
  with assms(2) have "f32_finite x" "f32_finite y" by simp_all
  then obtain a b where "x = Fin a" "y = Fin b"
    by (cases x; cases y) auto
  with r show ?thesis by simp
qed

lemma forward_f32_Inr:
  "forward_f32 lf st model x L A = Inr y \<longleftrightarrow>
     (\<exists>layers x_1 lin logits. map_of (m_dict model) ''layers'' = Some layers \<and>
        layers_loop_f32 lf st layers x L A None = Inr x_1 \<and>
        map_of (m_modules model) ''linear'' = Some lin \<and>
        Linear_forward_f32 st lin x = Inr logits \<and> y = softmax_f32 logits)"
  by (auto simp: forward_f32_def bindE_Inr split: option.splits)

lemma Linear_forward_f32_length:
  "Linear_forward_f32 st lin x = Inr logits \<Longrightarrow> length logits = length x"
  by (auto simp: Linear_forward_f32_def split: option.splits list.splits if_splits)

text \<open>
  C4, amended. Whenever the forward pass returns and the logits, the result of the linear
  projection, have two entries a row and are all finite, the result has one row per input row,
  and every row has two entries, both finite and non-negative, whose values sum to 1 (exactly,
  since rounding is not modelled).
\<close>

theorem forward_f32_finite_logits:
  assumes "forward_f32 lf st model x_1e Linv adjacency = Inr y_hat"
    and "map_of (m_modules model) ''linear'' = Some lin"
    and "Linear_forward_f32 st lin x_1e = Inr logits"
    and "\<forall>r \<in> set logits. length r = 2 \<and> (\<forall>v \<in> set r. f32_finite v)"
  shows "length y_hat = length x_1e \<and>
         (\<forall>row \<in> set y_hat.
            length row = 2 \<and> (\<forall>v \<in> set row. f32_finite v \<and> f32_nonneg v) \<and>
            sum_list (map f32_val row) = 1)"
proof -
  from assms(1,2,3) have y: "y_hat = softmax_f32 logits"
    unfolding forward_f32_Inr by auto
  have "length y_hat = length x_1e"
    unfolding y using Linear_forward_f32_length[OF assms(3)] by (simp add: softmax_f32_def)
  moreover have "length row = 2 \<and> (\<forall>v \<in> set row. f32_finite v \<and> f32_nonneg v) \<and>
            sum_list (map f32_val row) = 1" if "row \<in> set y_hat" for row
  proof -
    from that obtain r where r: "r \<in> set logits" "row = softmax_row_f32 r"
      unfolding y softmax_f32_def by auto
    from assms(4) r(1) finite_pair[of r] obtain a b where "r = [Fin a, Fin b]" by blast
    with r(2) softmax_row_f32_pair[of a b] obtain p q where
      "row = [Fin p, Fin q]" "0 \<le> p" "0 \<le> q" "p + q = 1" by auto
    thus ?thesis by simp
  qed
  ultimately show ?thesis by blast
qed

theorem forward_f32_finite_logits_witness:
  "\<exists>y. forward_f32 (\<lambda>st layer x_1e Linv adjacency. Inr x_1e) ones_f32_mem the_model
          ones_x_1e ones_x_1e ones_x_1e = Inr y \<and>
     Linear_forward_f32 ones_f32_mem (Module [(''weight'', 20), (''bias'', 21)] [] []) ones_x_1e
       = Inr (replicate 78 [Fin 78, Fin 78]) \<and>
     length y = 78 \<and> length (y ! 0) = 2 \<and> f32_nonneg (y ! 0 ! 0) \<and> f32_nonneg (y ! 0 ! 1) \<and>
     sum_list (map f32_val (y ! 0)) = 1"
proof -
  let ?lin = "Module [(''weight'', 20), (''bias'', 21)] [] []"
  let ?y = "replicate 78 (softmax_row_f32 [f32_add (Fin 78) (Fin 0), f32_add (Fin 78) (Fin 0)])"
  have f: "forward_f32 (\<lambda>st layer x_1e Linv adjacency. Inr x_1e) ones_f32_mem the_model
          ones_x_1e ones_x_1e ones_x_1e = Inr ?y"
    unfolding ones_x_1e_def by (simp add: forward_f32_ones_mem[OF ones_dot])
  have m: "map_of (m_modules the_model) ''linear'' = Some ?lin"
    unfolding the_model_eq by simp
  have l: "Linear_forward_f32 ones_f32_mem ?lin ones_x_1e = Inr (replicate 78 [Fin 78, Fin 78])"
    by (simp add: Linear_forward_f32_def ones_f32_mem_def ones_x_1e_def replicate_2 ones_dot
        f32_range_def f32_overflow_val)
  have h: "\<forall>r \<in> set (replicate 78 [Fin 78, Fin 78]). length r = 2 \<and> (\<forall>v \<in> set r. f32_finite v)"
    by simp
  from forward_f32_finite_logits[OF f m l h]
  have len: "length ?y = length ones_x_1e"
    and rows: "\<And>row. row \<in> set ?y \<Longrightarrow>
        length row = 2 \<and> (\<forall>v \<in> set row. f32_finite v \<and> f32_nonneg v) \<and>
        sum_list (map f32_val row) = 1"
    by blast+
  have l78: "length ?y = 78" by simp
  hence m0: "?y ! 0 \<in> set ?y" by (intro nth_mem) simp
  from rows[OF m0] have r0: "length (?y ! 0) = 2" "sum_list (map f32_val (?y ! 0)) = 1"
    "\<forall>v \<in> set (?y ! 0). f32_nonneg v" by simp_all
  from r0(1,3) have "f32_nonneg (?y ! 0 ! 0)" "f32_nonneg (?y ! 0 ! 1)"
    by (simp_all del: f32_add.simps)
  with f l l78 r0 show ?thesis by blast
qed

lemma list_all_zip_eq:
  "length pr = length tr \<Longrightarrow>
     list_all (\<lambda>(a, b). real_of_int a = b) (zip pr tr) \<longleftrightarrow> map real_of_int pr = tr"
  by (induction pr tr rule: list_induct2) auto

lemma accuracy_rows:
  assumes "accuracy p t = Inr a"
  shows "a = mean (map (\<lambda>(pr, tr). if map real_of_int pr = tr then 1 else 0) (zip p t))"
proof -
  from assms have sh: "map length p = map length t"
    and a: "a = mean (map (\<lambda>(pr, tr). if list_all (\<lambda>(a, b). real_of_int a = b) (zip pr tr)
                                        then 1 else 0) (zip p t))"
    by (auto simp: accuracy_def split: if_splits)
  have "length pr = length tr" if "(pr, tr) \<in> set (zip p t)" for pr tr
  proof -
    from that obtain j where j: "j < length (zip p t)" "zip p t ! j = (pr, tr)"
      by (auto simp: in_set_conv_nth)
    hence "pr = p ! j" "tr = t ! j" "j < length p" "j < length t" by auto
    moreover from sh \<open>j < length p\<close> \<open>j < length t\<close> have "length (p ! j) = length (t ! j)"
      by (metis nth_map)
    ultimately show ?thesis by simp
  qed
  hence "map (\<lambda>(pr, tr). if list_all (\<lambda>(a, b). real_of_int a = b) (zip pr tr) then 1 else 0 :: real)
           (zip p t)
         = map (\<lambda>(pr, tr). if map real_of_int pr = tr then 1 else 0) (zip p t)"
    by (auto simp: list_all_zip_eq)
  with a show ?thesis by simp
qed

lemma zip_drop_nth:
  assumes "length p = n" and "length t = n"
  shows "zip (drop k p) (drop k t) = map (\<lambda>j. (p ! j, t ! j)) [k..<n]"
  using assms by (auto simp: list_eq_iff_nth_eq)

lemma forward_length:
  "forward be st model x L A = Inr y \<Longrightarrow> length y = length x"
  unfolding forward_Inr Linear_forward_Inr by (auto simp: softmax_def)

text \<open>
  C8. An epoch that completes appends to the console exactly one \<^verbatim>\<open>Epoch:\<close> line carrying
  its own number and, when that number is divisible by 2, exactly one \<^verbatim>\<open>Test_acc:\<close> line
  after it, and nothing else. The test accuracy is the accuracy of the thresholded output of the
  model, at the parameters left by the epoch's single gradient step, on the last rows against
  \<^verbatim>\<open>y_test\<close>; with the labels of the label cell and an input of 78 rows these are the rows
  74 to 77 of the prediction against the rows 74 to 77 of \<^verbatim>\<open>y_true\<close>. Evaluating it changes
  neither the parameters nor the optimizer nor the labels.
\<close>

theorem epoch_console_output:
  assumes "epoch be model x_1e Linv adjacency epoch_i s = Inr s'"
  shows "\<exists>loss acc.
     (if epoch_i mod 2 = 0
      then \<exists>y_hat_test test_accuracy.
             out s' = out s @ [EpochLine epoch_i loss acc, TestLine test_accuracy] \<and>
             forward be (mem s') model x_1e Linv adjacency = Inr y_hat_test \<and>
             accuracy (py_slice (Some (- int (length (y_test (lab s))))) None
                         (threshold y_hat_test)) (y_test (lab s)) = Inr test_accuracy \<and>
             (labels_cell = Inr (lab s) \<and> length x_1e = 78 \<longrightarrow>
                test_accuracy
                  = rows_accuracy [74..<78] (threshold y_hat_test) (y_true (lab s)))
      else out s' = out s @ [EpochLine epoch_i loss acc]) \<and>
     (mem s', optimizer s') = after_step be x_1e Linv adjacency s \<and> lab s' = lab s"
proof -
  note fr = epoch_frame[OF assms]
  from epoch_out[OF assms] obtain loss acc where
    o: "if epoch_i mod test_interval = 0
         then \<exists>y_hat_test test_accuracy.
                forward be (mem s') model x_1e Linv adjacency = Inr y_hat_test \<and>
                accuracy (py_slice (Some (- int (length (y_test (lab s))))) None
                            (threshold y_hat_test)) (y_test (lab s)) = Inr test_accuracy \<and>
                out s' = out s @ [EpochLine epoch_i (mean [loss]) acc, TestLine test_accuracy]
         else out s' = out s @ [EpochLine epoch_i (mean [loss]) acc]"
    by blast
  have idx: "ta = rows_accuracy [74..<78] (threshold y) (y_true (lab s))"
    if f: "forward be (mem s') model x_1e Linv adjacency = Inr y"
      and a: "accuracy (py_slice (Some (- int (length (y_test (lab s))))) None (threshold y))
                (y_test (lab s)) = Inr ta"
      and l: "labels_cell = Inr (lab s)" and x: "length x_1e = 78"
    for y ta
  proof -
    note sh = labels_cell_shape[OF l]
    have ly: "length (threshold y) = 78" using forward_length[OF f] x by (simp add: threshold_def)
    have "py_slice (Some (- int (length (y_test (lab s))))) None (threshold y)
          = drop 74 (threshold y)"
      using py_slice_suffix[of 4 "threshold y"] ly sh(3) by simp
    with a sh(7) have "accuracy (drop 74 (threshold y)) (drop 74 (y_true (lab s))) = Inr ta"
      by simp
    from accuracy_rows[OF this]
    show ?thesis
      unfolding zip_drop_nth[OF ly sh(1)] rows_accuracy_def by (simp add: comp_def)
  qed
  show ?thesis
  proof (cases "epoch_i mod 2 = 0")
    case True
    with o obtain y ta where
      "forward be (mem s') model x_1e Linv adjacency = Inr y"
      "accuracy (py_slice (Some (- int (length (y_test (lab s))))) None (threshold y))
         (y_test (lab s)) = Inr ta"
      "out s' = out s @ [EpochLine epoch_i (mean [loss]) acc, TestLine ta]"
      by (auto simp: test_interval_def)
    with True idx fr show ?thesis by auto
  next
    case False
    with o have "out s' = out s @ [EpochLine epoch_i (mean [loss]) acc]"
      by (simp add: test_interval_def)
    with False fr show ?thesis by auto
  qed
qed

theorem epoch_console_output_witness:
  "\<exists>model s0 s1 s2 loss1 acc1 loss2 acc2 y_hat_test.
     notebook_init demo_backend 0 demo_mem = Inr (model, s0) \<and>
     epoch demo_backend model demo_x_1e demo_x_1e demo_x_1e 1 s0 = Inr s1 \<and>
     out s1 = [EpochLine 1 loss1 acc1] \<and>
     epoch demo_backend model demo_x_1e demo_x_1e demo_x_1e 2 s1 = Inr s2 \<and>
     forward demo_backend (mem s2) model demo_x_1e demo_x_1e demo_x_1e = Inr y_hat_test \<and>
     out s2 = [EpochLine 1 loss1 acc1, EpochLine 2 loss2 acc2,
               TestLine (rows_accuracy [74..<78] (threshold y_hat_test) (y_true (lab s1)))]"
proof -
  from demo_run obtain l model s0 s' where
    l: "labels_cell = Inr l"
    and i: "notebook_init demo_backend 0 demo_mem = Inr (model, s0)"
    and c: "conforming demo_backend model demo_x_1e demo_x_1e demo_x_1e s0"
    and o: "out s0 = []" by blast
  from i have l0: "lab s0 = l" unfolding demo_notebook_init[OF l] by auto
  from epoch_ok[OF c, of 1] obtain s1 where
    e1: "epoch demo_backend model demo_x_1e demo_x_1e demo_x_1e 1 s0 = Inr s1"
    and c1: "conforming demo_backend model demo_x_1e demo_x_1e demo_x_1e s1" by blast
  from epoch_ok[OF c1, of 2] obtain s2 where
    e2: "epoch demo_backend model demo_x_1e demo_x_1e demo_x_1e 2 s1 = Inr s2" by blast
  from epoch_console_output[OF e1] o obtain loss1 acc1 where
    o1: "out s1 = [EpochLine 1 loss1 acc1]" and l1: "lab s1 = lab s0" by auto
  have x: "length demo_x_1e = 78" by (simp add: demo_x_1e_def)
  from l l0 l1 have lc: "labels_cell = Inr (lab s1)" by simp
  from epoch_console_output[OF e2] lc x o1 obtain loss2 acc2 y_hat_test where
    "forward demo_backend (mem s2) model demo_x_1e demo_x_1e demo_x_1e = Inr y_hat_test"
    "out s2 = [EpochLine 1 loss1 acc1, EpochLine 2 loss2 acc2,
               TestLine (rows_accuracy [74..<78] (threshold y_hat_test) (y_true (lab s1)))]"
    by auto
  with i e1 o1 e2 show ?thesis by blast
qed

lemma layers_loop_total:
  "\<exists>r. layers_loop (be\<lparr>layer_forward := \<lambda>st l x L A. Inr (f st l x L A)\<rparr>) st ls x L A x1 = Inr r"
  by (rule layers_loop_ok) simp

lemma forward_ignores_layers:
  "forward (be\<lparr>layer_forward := \<lambda>st l x L A. Inr (f st l x L A)\<rparr>) st model x L A
   = forward (be\<lparr>layer_forward := \<lambda>st l x L A. Inr (g st l x L A)\<rparr>) st model x L A"
proof (cases "map_of (m_dict model) ''layers''")
  case None
  then show ?thesis by (simp add: forward_def)
next
  case (Some ls)
  obtain r1 where 1:
    "layers_loop (be\<lparr>layer_forward := \<lambda>st l x L A. Inr (f st l x L A)\<rparr>) st ls x L A None = Inr r1"
    using layers_loop_total by blast
  obtain r2 where 2:
    "layers_loop (be\<lparr>layer_forward := \<lambda>st l x L A. Inr (g st l x L A)\<rparr>) st ls x L A None = Inr r2"
    using layers_loop_total by blast
  show ?thesis by (simp add: forward_def Some 1 2 bindE_def)
qed

text \<open>
  C1. On the notebook's model (ten layers, 78 channels) and an input of 78 rows the forward pass
  returns a tensor, and it returns the same tensor when every layer is replaced by one that
  returns the empty tensor, although the layers themselves return a tensor of 78 rows: the
  result of the layers never reaches the linear projection, which is applied to the input.
\<close>

theorem forward_discards_layer_outputs:
  "\<exists>model s0 y. notebook_init demo_backend 0 demo_mem = Inr (model, s0) \<and>
     forward demo_backend demo_mem model demo_x_1e demo_x_1e demo_x_1e = Inr y \<and>
     forward (demo_backend\<lparr>layer_forward := \<lambda>st layer x_1e Linv adjacency. Inr []\<rparr>)
       demo_mem model demo_x_1e demo_x_1e demo_x_1e = Inr y \<and>
     y = softmax (replicate 78 [78, 78]) \<and> y = replicate 78 [1 / 2, 1 / 2] \<and>
     (\<exists>z. layer_forward demo_backend demo_mem
            (Module [] [(''fc_neigh'', Module [(''weight'', 0), (''bias'', 1)] [] [])] [])
            demo_x_1e demo_x_1e demo_x_1e = Inr z \<and> length z = 78)"
proof -
  from demo_run obtain l model s0 where
    l: "labels_cell = Inr l"
    and i: "notebook_init demo_backend 0 demo_mem = Inr (model, s0)"
    and c: "conforming demo_backend model demo_x_1e demo_x_1e demo_x_1e s0"
    and s0: "mem s0 = demo_mem" by blast
  from conforming_forward[OF c] s0 obtain y where
    f: "forward demo_backend demo_mem model demo_x_1e demo_x_1e demo_x_1e = Inr y" by auto
  have e: "demo_backend\<lparr>layer_forward := \<lambda>st layer x_1e Linv adjacency.
      Inr (map (\<lambda>r. map (\<lambda>w. dot w r) (st (sum_list (take 1 (named_params layer))))) x_1e)\<rparr>
      = demo_backend"
    by (simp add: demo_backend_def)
  have "forward (demo_backend\<lparr>layer_forward := \<lambda>st layer x_1e Linv adjacency. Inr []\<rparr>)
       demo_mem model demo_x_1e demo_x_1e demo_x_1e
     = forward (demo_backend\<lparr>layer_forward := \<lambda>st layer x_1e Linv adjacency.
      Inr (map (\<lambda>r. map (\<lambda>w. dot w r) (st (sum_list (take 1 (named_params layer))))) x_1e)\<rparr>)
       demo_mem model demo_x_1e demo_x_1e demo_x_1e"
    by (rule forward_ignores_layers)
  hence g: "forward (demo_backend\<lparr>layer_forward := \<lambda>st layer x_1e Linv adjacency. Inr []\<rparr>)
       demo_mem model demo_x_1e demo_x_1e demo_x_1e = Inr y"
    unfolding e f .
  have d: "dot (replicate 78 1) (replicate 78 1) = 78"
    by (simp add: dot_def zip_replicate sum_list_replicate)
  have r2: "replicate 2 w = [w, w]" for w :: "real list"
    by (simp add: numeral_2_eq_2)
  have lf: "Linear_forward demo_mem (Module [(''weight'', 20), (''bias'', 21)] [] []) demo_x_1e
       = Inr (replicate 78 [78, 78])"
    by (simp add: Linear_forward_def demo_mem_def demo_x_1e_def r2 d)
  from i have m: "map_of (m_modules model) ''linear''
      = Some (Module [(''weight'', 20), (''bias'', 21)] [] [])"
    unfolding demo_notebook_init[OF l] by auto
  from f m lf have y: "y = softmax (replicate 78 [78, 78])"
    unfolding forward_Inr by auto
  have z: "\<exists>z. layer_forward demo_backend demo_mem
            (Module [] [(''fc_neigh'', Module [(''weight'', 0), (''bias'', 1)] [] [])] [])
            demo_x_1e demo_x_1e demo_x_1e = Inr z \<and> length z = 78"
    by (simp add: demo_backend_def demo_x_1e_def)
  have "softmax (replicate 78 [78, 78]) = replicate 78 [1 / 2, 1 / 2]"
    by (simp add: softmax_def softmax_row_def)
  with y have y': "y = replicate 78 [1 / 2, 1 / 2]" by simp
  from i f g y y' z show ?thesis by blast
qed

lemma forward_value:
  assumes "map_of (m_dict model) ''layers'' = Some ls"
    and "\<forall>l \<in> set ls. \<exists>y. layer_forward be st l x L A = Inr y"
    and "map_of (m_modules model) ''linear'' = Some lin"
    and "Linear_forward st lin x = Inr logits"
  shows "forward be st model x L A = Inr (softmax logits)"
proof -
  from layers_loop_ok[OF assms(2)] obtain r where "layers_loop be st ls x L A None = Inr r"
    by blast
  with assms(1,3,4) show ?thesis by (simp add: forward_def bindE_def)
qed

lemma dot_Cons: "dot (a # as) (b # bs) = a * b + dot as bs"
  by (simp add: dot_def)

lemma dot_zeros: "dot (replicate n 0) xs = 0"
proof (induction n arbitrary: xs)
  case 0
  show ?case by (simp add: dot_def)
next
  case (Suc n)
  show ?case
  proof (cases xs)
    case Nil
    then show ?thesis by (simp add: dot_def)
  next
    case (Cons y ys)
    with Suc[of ys] show ?thesis by (simp add: dot_Cons)
  qed
qed

lemma threshold_softmax_pair:
  "threshold (softmax (map (\<lambda>c. [c, 0]) cs))
     = map (\<lambda>c. if 0 < c then [1, 0] else if c < 0 then [0, 1] else [0, 0]) cs"
proof -
  have "map (\<lambda>v. if v > 0.5 then 1 else (0::int)) (softmax_row [c, 0])
        = (if 0 < c then [1, 0] else if c < 0 then [0, 1] else [0, 0])" for c :: real
  proof -
    have p: "0 < exp c + 1" by (simp add: add_pos_pos)
    have 1: "exp c / (exp c + 1) > 1 / 2 \<longleftrightarrow> 0 < c"
      using p by (simp add: field_simps)
    have 2: "1 / (exp c + 1) > 1 / 2 \<longleftrightarrow> c < 0"
      using p by (simp add: field_simps)
    show ?thesis using 1 2 by (auto simp: softmax_row_def)
  qed
  thus ?thesis by (simp add: threshold_def softmax_def comp_def)
qed

lemma slip_threshold:
  "threshold (softmax (map (\<lambda>c. [c, 0]) slip_signs))
     = map (\<lambda>v. if v = 1 then [1, 0] else [0, 1]) (take 30 y_labels) @ replicate 48 [0, 1]"
  unfolding threshold_softmax_pair
  by (simp add: slip_signs_def y_labels_def y_base_def)

lemma slip_Linear_forward:
  "Linear_forward slip_mem (Module [(''weight'', 20), (''bias'', 21)] [] []) slip_x_1e
     = Inr (map (\<lambda>c. [c, 0]) slip_signs)"
proof -
  have "\<forall>r \<in> set slip_x_1e. length r = 78" by (auto simp: slip_x_1e_def)
  thus ?thesis
    by (simp add: Linear_forward_def slip_mem_def)
       (simp add: slip_x_1e_def dot_Cons dot_zeros[of 78, simplified] dot_zeros)
qed

text \<open>
  C2. On an input of 78 rows for which the model predicts the training labels exactly on the rows
  0 to 29 and the second class on every other row, the first epoch prints a \<^verbatim>\<open>Train_acc\<close> of
  13/30: the expression compares \<^verbatim>\<open>y_train\<close> with the rows 48 to 77 of the prediction. On the
  rows 0 to 29, the rows the loss is computed on, the prediction equals \<^verbatim>\<open>y_train\<close> and the
  same comparison gives 1.
\<close>

theorem train_accuracy_reads_last_rows:
  "\<exists>model s0 s1 y_hat loss.
     notebook_init demo_backend 0 slip_mem = Inr (model, s0) \<and>
     forward demo_backend slip_mem model slip_x_1e slip_x_1e slip_x_1e = Inr y_hat \<and>
     length y_hat = 78 \<and> length (y_train (lab s0)) = 30 \<and>
     epoch demo_backend model slip_x_1e slip_x_1e slip_x_1e 1 s0 = Inr s1 \<and>
     out s1 = [EpochLine 1 loss (13 / 30)] \<and>
     py_slice (Some (- int (length (y_train (lab s0))))) None (threshold y_hat)
       = map ((!) (threshold y_hat)) [48..<78] \<and>
     py_slice None (Some (int (length (y_train (lab s0))))) (threshold y_hat)
       = map ((!) (threshold y_hat)) [0..<30] \<and>
     map (map real_of_int) (map ((!) (threshold y_hat)) [0..<30]) = y_train (lab s0) \<and>
     accuracy (map ((!) (threshold y_hat)) [0..<30]) (y_train (lab s0)) = Inr 1"
proof -
  obtain l where l: "labels_cell = Inr l" using labels_cell_eq by blast
  note sh = labels_cell_shape[OF l]
  from l have yt: "y_train l = map (\<lambda>v. [real_of_int v, real_of_int (1 - v)]) (take 30 y_labels)"
    unfolding labels_cell_eq by auto
  let ?ls = "map (\<lambda>k. Module [] [(''fc_neigh'',
                 Module [(''weight'', 2 * k), (''bias'', 2 * k + 1)] [] [])] [])
               [0, 1, 2, 3, 4, 5, 6, 7, 8, 9 :: nat]"
  let ?model = "Module [] [(''linear'', Module [(''weight'', 20), (''bias'', 21)] [] [])]
            [(''layers'', ?ls)]"
  let ?s0 = "\<lparr>mem = slip_mem, optimizer = \<lparr>param_groups = [20, 21], opt_state = 0::nat\<rparr>,
           lab = l, out = []\<rparr>"
  let ?y = "softmax (map (\<lambda>c. [c, 0]) slip_signs)"
  have i: "notebook_init demo_backend 0 slip_mem = Inr (?model, ?s0)"
    using demo_notebook_init[OF l, of slip_mem] by simp
  have lx: "length slip_x_1e = 78"
    by (simp add: slip_x_1e_def slip_signs_def length_y_labels)
  have f: "forward demo_backend slip_mem ?model slip_x_1e slip_x_1e slip_x_1e = Inr ?y"
    by (rule forward_value[where ls = ?ls and lin = "Module [(''weight'', 20), (''bias'', 21)] [] []"])
       (simp_all add: slip_Linear_forward, simp add: demo_backend_def)
  have ly: "length ?y = 78" using forward_length[OF f] lx by simp
  hence lt: "length (threshold ?y) = 78" by (simp add: threshold_def)
  have c: "conforming demo_backend ?model slip_x_1e slip_x_1e slip_x_1e ?s0"
    using l i
  proof (rule demo_conforming)
    show "length (slip_mem 20) = 2" "map length (slip_mem 21) = [2]"
      by (simp_all add: slip_mem_def)
    show "\<forall>w \<in> set (slip_mem 20). \<forall>r \<in> set slip_x_1e. length r = length w"
      by (auto simp: slip_mem_def slip_x_1e_def)
    show "length slip_x_1e = 78" by (rule lx)
  qed
  from epoch_ok[OF c, of 1] obtain s1 where
    e: "epoch demo_backend ?model slip_x_1e slip_x_1e slip_x_1e 1 ?s0 = Inr s1" by blast
  have s1: "py_slice (Some (- int (length (y_train l)))) None (threshold ?y)
            = drop 48 (threshold ?y)"
    using py_slice_suffix[of 30 "threshold ?y"] lt sh(2) by simp
  have s2: "py_slice None (Some (int (length (y_train l)))) (threshold ?y)
            = take 30 (threshold ?y)"
    using py_slice_prefix[of 30 "threshold ?y"] lt sh(2) by simp
  have i1: "drop 48 (threshold ?y) = map ((!) (threshold ?y)) [48..<78]"
    using drop_nth_upt[of 48 "threshold ?y"] lt by simp
  have i2: "take 30 (threshold ?y) = map ((!) (threshold ?y)) [0..<30]"
    using take_nth_upt[of 30 "threshold ?y"] lt by simp
  have a1: "accuracy (drop 48 (threshold ?y)) (y_train l) = Inr (13 / 30)"
    unfolding yt slip_threshold
    by (simp add: accuracy_def mean_def y_labels_def y_base_def eval_nat_numeral)
  have a2: "accuracy (take 30 (threshold ?y)) (y_train l) = Inr 1"
    unfolding yt slip_threshold
    by (simp add: accuracy_def mean_def y_labels_def y_base_def)
  have eq: "map (map real_of_int) (take 30 (threshold ?y)) = y_train l"
    unfolding yt slip_threshold
    by (simp add: y_labels_def y_base_def)
  from epoch_out[OF e] f s1 a1 obtain loss where
    o: "out s1 = [EpochLine 1 (mean [loss]) (13 / 30)]"
    by (auto simp: test_interval_def)
  show ?thesis
  proof (rule exI[of _ ?model], rule exI[of _ ?s0], rule exI[of _ s1], rule exI[of _ ?y],
      rule exI[of _ "mean [loss]"], intro conjI)
    show "notebook_init demo_backend 0 slip_mem = Inr (?model, ?s0)" by (rule i)
    show "forward demo_backend slip_mem ?model slip_x_1e slip_x_1e slip_x_1e = Inr ?y"
      by (rule f)
    show "length ?y = 78" by (rule ly)
    show "length (y_train (lab ?s0)) = 30" using sh(2) by simp
    show "epoch demo_backend ?model slip_x_1e slip_x_1e slip_x_1e 1 ?s0 = Inr s1" by (rule e)
    show "out s1 = [EpochLine 1 (mean [loss]) (13 / 30)]" by (rule o)
    show "py_slice (Some (- int (length (y_train (lab ?s0))))) None (threshold ?y)
       = map ((!) (threshold ?y)) [48..<78]" using s1 i1 by simp
    show "py_slice None (Some (int (length (y_train (lab ?s0))))) (threshold ?y)
       = map ((!) (threshold ?y)) [0..<30]" using s2 i2 by simp
    show "map (map real_of_int) (map ((!) (threshold ?y)) [0..<30]) = y_train (lab ?s0)"
      using eq unfolding i2 by simp
    show "accuracy (map ((!) (threshold ?y)) [0..<30]) (y_train (lab ?s0)) = Inr 1"
      using a2 unfolding i2 by simp
  qed
qed

end
